theory Spec2Isabelle
  imports Main "HOL-Library.Word"
begin

unbundle bit_operations_syntax

section \<open>Extension and layer validation\<close>

text \<open>
  A C string is modelled by the bytes before its terminating NUL, as a \<open>string\<close>.
  \<open>strcmp\<close> is the C library's comparison: the sign of the first differing byte
  (compared as unsigned char), a proper prefix being smaller.
\<close>

fun strcmp :: "string \<Rightarrow> string \<Rightarrow> int" where
  "strcmp [] [] = 0"
| "strcmp [] (y # ys) = - 1"
| "strcmp (x # xs) [] = 1"
| "strcmp (x # xs) (y # ys) =
     (if x = y then strcmp xs ys
      else if (of_char x :: nat) < of_char y then - 1 else 1)"

definition cstrEquals :: "string \<Rightarrow> string \<Rightarrow> bool" where
  "cstrEquals str1 str2 = (strcmp str1 str2 = 0)"

record VkExtensionProperties =
  extensionName :: string
  specVersion :: "32 word"

record VkLayerProperties =
  layerName :: string
  layerSpecVersion :: "32 word"
  implementationVersion :: "32 word"
  description :: string

definition validationLayers :: "string list" where
  "validationLayers = [''VK_LAYER_KHRONOS_validation'']"

fun extensionNamePresentInExtensionVector :: "string \<Rightarrow> VkExtensionProperties list \<Rightarrow> bool" where
  "extensionNamePresentInExtensionVector name [] = False"
| "extensionNamePresentInExtensionVector name (supportedExtension # rest) =
     (if cstrEquals (extensionName supportedExtension) name then True
      else extensionNamePresentInExtensionVector name rest)"

fun layerNamePresentInLayerVector :: "string \<Rightarrow> VkLayerProperties list \<Rightarrow> bool" where
  "layerNamePresentInLayerVector name [] = False"
| "layerNamePresentInLayerVector name (supportedLayer # rest) =
     (if cstrEquals (layerName supportedLayer) name then True
      else layerNamePresentInLayerVector name rest)"

fun checkExtensionSupport :: "string list \<Rightarrow> VkExtensionProperties list \<Rightarrow> bool" where
  "checkExtensionSupport [] availableExtensions = True"
| "checkExtensionSupport (name # rest) availableExtensions =
     (if \<not> extensionNamePresentInExtensionVector name availableExtensions then False
      else checkExtensionSupport rest availableExtensions)"

text \<open>
  \<open>checkValidationLayerSupport\<close> runs the same loop over the static array
  \<open>validationLayers\<close>; \<open>checkLayerNames\<close> is that loop.
\<close>

fun checkLayerNames :: "string list \<Rightarrow> VkLayerProperties list \<Rightarrow> bool" where
  "checkLayerNames [] availableLayers = True"
| "checkLayerNames (name # rest) availableLayers =
     (if \<not> layerNamePresentInLayerVector name availableLayers then False
      else checkLayerNames rest availableLayers)"

definition checkValidationLayerSupport :: "VkLayerProperties list \<Rightarrow> bool" where
  "checkValidationLayerSupport availableLayers = checkLayerNames validationLayers availableLayers"

section \<open>Queue family resolution\<close>

text \<open>
  \<open>VkQueueFlags\<close> is a 32-bit mask; the \<open>VkQueueFlagBits\<close> values are those of the
  Vulkan headers.
\<close>

record VkQueueFamilyProperties =
  queueFlags :: "32 word"
  queueCount :: "32 word"

definition VK_QUEUE_GRAPHICS_BIT :: "32 word" where "VK_QUEUE_GRAPHICS_BIT = 0x1"

definition VK_QUEUE_COMPUTE_BIT :: "32 word" where "VK_QUEUE_COMPUTE_BIT = 0x2"

definition VK_QUEUE_TRANSFER_BIT :: "32 word" where "VK_QUEUE_TRANSFER_BIT = 0x4"

definition VK_QUEUE_SPARSE_BINDING_BIT :: "32 word" where "VK_QUEUE_SPARSE_BINDING_BIT = 0x8"

text \<open>
  The \<open>for\<close> loop of \<open>findQueueFamilyWithCapability\<close>, at index \<open>i\<close> with the
  current value of the local \<open>index\<close>: a family that shares a bit with the capability
  is remembered, and returned at once when its flags equal the capability.
\<close>

function findQueueFamilyWithCapability_loop ::
  "VkQueueFamilyProperties list \<Rightarrow> 32 word \<Rightarrow> nat \<Rightarrow> nat option \<Rightarrow> nat option" where
  "findQueueFamilyWithCapability_loop queueFamilies capability i index =
     (if i < length queueFamilies then
        (if queueFlags (queueFamilies ! i) AND capability \<noteq> 0 then
           (if queueFlags (queueFamilies ! i) XOR capability = 0 then Some i
            else findQueueFamilyWithCapability_loop queueFamilies capability (i + 1) (Some i))
         else findQueueFamilyWithCapability_loop queueFamilies capability (i + 1) index)
      else index)"
  by pat_completeness auto

termination
  by (relation "measure (\<lambda>(queueFamilies, capability, i, index). length queueFamilies - i)") auto

declare findQueueFamilyWithCapability_loop.simps [simp del]

definition findQueueFamilyWithCapability ::
  "VkQueueFamilyProperties list \<Rightarrow> 32 word \<Rightarrow> nat option" where
  "findQueueFamilyWithCapability queueFamilies capability =
     findQueueFamilyWithCapability_loop queueFamilies capability 0 None"

section \<open>Physical device selection\<close>

text \<open>
  What the code can raise: \<open>std::runtime_error\<close> with its message,
  \<open>std::bad_optional_access\<close> from \<open>optional::value\<close>, and undefined behaviour
  (an out-of-range read, a violated library precondition), kept apart from both.
\<close>

datatype error = runtime_error string | bad_optional_access | undefined_behaviour

record VkExtent2D =
  width :: "32 word"
  height :: "32 word"

record VkSurfaceCapabilitiesKHR =
  minImageCount :: "32 word"
  maxImageCount :: "32 word"
  currentExtent :: VkExtent2D
  minImageExtent :: VkExtent2D
  maxImageExtent :: VkExtent2D
  currentTransform :: "32 word"

record VkSurfaceFormatKHR =
  format :: "32 word"
  colorSpace :: "32 word"

datatype VkPresentModeKHR =
    VK_PRESENT_MODE_IMMEDIATE_KHR
  | VK_PRESENT_MODE_MAILBOX_KHR
  | VK_PRESENT_MODE_FIFO_KHR
  | VK_PRESENT_MODE_FIFO_RELAXED_KHR

text \<open>
  \<open>VkPhysicalDeviceType\<close> is an enumeration, not a bit mask; \<open>deviceTypeValue\<close> gives
  the integer value of each enumerator in the Vulkan headers.
\<close>

datatype VkPhysicalDeviceType =
    VK_PHYSICAL_DEVICE_TYPE_OTHER
  | VK_PHYSICAL_DEVICE_TYPE_INTEGRATED_GPU
  | VK_PHYSICAL_DEVICE_TYPE_DISCRETE_GPU
  | VK_PHYSICAL_DEVICE_TYPE_VIRTUAL_GPU
  | VK_PHYSICAL_DEVICE_TYPE_CPU

fun deviceTypeValue :: "VkPhysicalDeviceType \<Rightarrow> 32 word" where
  "deviceTypeValue VK_PHYSICAL_DEVICE_TYPE_OTHER = 0"
| "deviceTypeValue VK_PHYSICAL_DEVICE_TYPE_INTEGRATED_GPU = 1"
| "deviceTypeValue VK_PHYSICAL_DEVICE_TYPE_DISCRETE_GPU = 2"
| "deviceTypeValue VK_PHYSICAL_DEVICE_TYPE_VIRTUAL_GPU = 3"
| "deviceTypeValue VK_PHYSICAL_DEVICE_TYPE_CPU = 4"

text \<open>
  A physical device is an opaque handle in the source. It is modelled by what the driver
  reports for it and for the application's surface: its type, its extensions, its queue
  families, the families that can present to the surface, and the surface's capabilities,
  formats and present modes.
\<close>

record VkPhysicalDevice =
  deviceType :: VkPhysicalDeviceType
  supportedDeviceExtensions :: "VkExtensionProperties list"
  queueFamilyProperties :: "VkQueueFamilyProperties list"
  surfaceSupport :: "nat list"
  surfaceCapabilities :: VkSurfaceCapabilitiesKHR
  surfaceFormats :: "VkSurfaceFormatKHR list"
  surfacePresentModes :: "VkPresentModeKHR list"

record QueueFamilyIndices =
  graphicsFamily :: "nat option"
  computeFamily :: "nat option"
  transferFamily :: "nat option"
  sparseBindingFamily :: "nat option"
  presentFamily :: "nat option"

record SwapChainSupportDetails =
  capabilities :: VkSurfaceCapabilitiesKHR
  formats :: "VkSurfaceFormatKHR list"
  presentModes :: "VkPresentModeKHR list"

definition deviceExtensions :: "string list" where
  "deviceExtensions = [''VK_KHR_swapchain'']"

definition getSupportedDeviceExtensions :: "VkPhysicalDevice \<Rightarrow> VkExtensionProperties list" where
  "getSupportedDeviceExtensions device = supportedDeviceExtensions device"

definition querySwapChainCapabilities :: "VkPhysicalDevice \<Rightarrow> VkSurfaceCapabilitiesKHR" where
  "querySwapChainCapabilities device = surfaceCapabilities device"

definition querySwapChainFormats :: "VkPhysicalDevice \<Rightarrow> VkSurfaceFormatKHR list" where
  "querySwapChainFormats device = surfaceFormats device"

definition querySwapChainPresentModes :: "VkPhysicalDevice \<Rightarrow> VkPresentModeKHR list" where
  "querySwapChainPresentModes device = surfacePresentModes device"

definition querySwapChainSupport :: "VkPhysicalDevice \<Rightarrow> SwapChainSupportDetails" where
  "querySwapChainSupport device =
     \<lparr>capabilities = querySwapChainCapabilities device,
      formats = querySwapChainFormats device,
      presentModes = querySwapChainPresentModes device\<rparr>"

text \<open>The first family index for which the driver reports support of the surface.\<close>

definition findPresentationQueueFamily ::
  "VkPhysicalDevice \<Rightarrow> VkQueueFamilyProperties list \<Rightarrow> nat option" where
  "findPresentationQueueFamily device queueFamilies =
     find (\<lambda>i. i \<in> set (surfaceSupport device)) [0 ..< length queueFamilies]"

definition findQueueFamilies :: "VkPhysicalDevice \<Rightarrow> QueueFamilyIndices" where
  "findQueueFamilies device =
     (let queueFamilies = queueFamilyProperties device in
      \<lparr>graphicsFamily = findQueueFamilyWithCapability queueFamilies VK_QUEUE_GRAPHICS_BIT,
       computeFamily = findQueueFamilyWithCapability queueFamilies VK_QUEUE_COMPUTE_BIT,
       transferFamily = findQueueFamilyWithCapability queueFamilies VK_QUEUE_TRANSFER_BIT,
       sparseBindingFamily = findQueueFamilyWithCapability queueFamilies VK_QUEUE_SPARSE_BINDING_BIT,
       presentFamily = findPresentationQueueFamily device queueFamilies\<rparr>)"

definition isDeviceSuitable :: "VkPhysicalDevice \<Rightarrow> bool" where
  "isDeviceSuitable device =
     (let extensionsSupported =
            checkExtensionSupport deviceExtensions (getSupportedDeviceExtensions device);
          swapChainAdequate =
            (if extensionsSupported then
               (let details = querySwapChainSupport device
                in \<not> (formats details = [] \<or> presentModes details = []))
             else False);
          queueFamilies = findQueueFamilies device
      in graphicsFamily queueFamilies \<noteq> None
         \<and> presentFamily queueFamilies \<noteq> None
         \<and> extensionsSupported
         \<and> swapChainAdequate)"

definition DEVICE_NON_SUITABLE_SCORE :: int where
  "DEVICE_NON_SUITABLE_SCORE = 0"

definition calculatePhysicalDeviceScore :: "VkPhysicalDevice \<Rightarrow> int" where
  "calculatePhysicalDeviceScore device =
     (let score = DEVICE_NON_SUITABLE_SCORE in
      if \<not> isDeviceSuitable device then score
      else
        (let score = score + 1 in
         if deviceTypeValue (deviceType device)
              AND deviceTypeValue VK_PHYSICAL_DEVICE_TYPE_DISCRETE_GPU \<noteq> 0
         then score + 1000
         else score))"

text \<open>\<open>findPhysicalDevices\<close> on what \<open>vkEnumeratePhysicalDevices\<close> enumerates.\<close>

definition findPhysicalDevices :: "VkPhysicalDevice list \<Rightarrow> error + VkPhysicalDevice list" where
  "findPhysicalDevices enumerated =
     (if length enumerated = 0 then Inl (runtime_error ''failed to find gpu supporting vulkan'')
      else Inr enumerated)"

text \<open>
  One iteration of the loop of \<open>pickPhysicalDeviceWithHighestScore\<close>, on the pair of
  the locals \<open>highest_score\<close> and \<open>best_device_idx\<close>; the loop runs it for the
  indices in increasing order.
\<close>

definition pickPhysicalDeviceWithHighestScore_step ::
  "VkPhysicalDevice list \<Rightarrow> nat \<Rightarrow> int \<times> nat \<Rightarrow> int \<times> nat" where
  "pickPhysicalDeviceWithHighestScore_step physicalDevices i st =
     (case st of (highest_score, best_device_idx) \<Rightarrow>
        (let score = calculatePhysicalDeviceScore (physicalDevices ! i) in
         if score > highest_score then (score, i) else (highest_score, best_device_idx)))"

definition pickPhysicalDeviceWithHighestScore ::
  "VkPhysicalDevice list \<Rightarrow> error + VkPhysicalDevice" where
  "pickPhysicalDeviceWithHighestScore physicalDevices =
     (case fold (pickPhysicalDeviceWithHighestScore_step physicalDevices)
             [0 ..< length physicalDevices] (DEVICE_NON_SUITABLE_SCORE, 0) of
        (highest_score, best_device_idx) \<Rightarrow>
          if highest_score = DEVICE_NON_SUITABLE_SCORE
          then Inl (runtime_error ''no suitable gpu found'')
          else Inr (physicalDevices ! best_device_idx))"

text \<open>A device that passes the suitability gate, of a given type.\<close>

definition sampleDevice :: "VkPhysicalDeviceType \<Rightarrow> VkPhysicalDevice" where
  "sampleDevice t =
     \<lparr>deviceType = t,
      supportedDeviceExtensions = [\<lparr>extensionName = ''VK_KHR_swapchain'', specVersion = 70\<rparr>],
      queueFamilyProperties = [\<lparr>queueFlags = 15, queueCount = 16\<rparr>, \<lparr>queueFlags = 4, queueCount = 2\<rparr>],
      surfaceSupport = [0],
      surfaceCapabilities =
        \<lparr>minImageCount = 2, maxImageCount = 8,
         currentExtent = \<lparr>width = 800, height = 600\<rparr>,
         minImageExtent = \<lparr>width = 1, height = 1\<rparr>,
         maxImageExtent = \<lparr>width = 4096, height = 4096\<rparr>,
         currentTransform = 1\<rparr>,
      surfaceFormats = [\<lparr>format = 44, colorSpace = 0\<rparr>],
      surfacePresentModes = [VK_PRESENT_MODE_FIFO_KHR]\<rparr>"

section \<open>Surface negotiation\<close>

definition WIDTH :: "32 word" where "WIDTH = 800"

definition HEIGHT :: "32 word" where "HEIGHT = 600"

definition UINT32_MAX :: "32 word" where "UINT32_MAX = 0xFFFFFFFF"

definition VK_FORMAT_B8G8R8_UNORM :: "32 word" where "VK_FORMAT_B8G8R8_UNORM = 30"

definition VK_COLOR_SPACE_SRGB_NONLINEAR_KHR :: "32 word" where "VK_COLOR_SPACE_SRGB_NONLINEAR_KHR = 0"

text \<open>
  \<open>availableFormats[0]\<close> on an empty vector is an out-of-range read: the result is
  \<open>None\<close> there.
\<close>

definition chooseSwapSurfaceFormat :: "VkSurfaceFormatKHR list \<Rightarrow> VkSurfaceFormatKHR option" where
  "chooseSwapSurfaceFormat availableFormats =
     (case find (\<lambda>f. format f = VK_FORMAT_B8G8R8_UNORM
                      \<and> colorSpace f = VK_COLOR_SPACE_SRGB_NONLINEAR_KHR) availableFormats of
        Some f \<Rightarrow> Some f
      | None \<Rightarrow> (if 0 < length availableFormats then Some (availableFormats ! 0) else None))"

definition chooseSwapPresentMode :: "VkPresentModeKHR list \<Rightarrow> VkPresentModeKHR" where
  "chooseSwapPresentMode availablePresentModes =
     (case find (\<lambda>presentMode. presentMode = VK_PRESENT_MODE_MAILBOX_KHR) availablePresentModes of
        Some presentMode \<Rightarrow> VK_PRESENT_MODE_MAILBOX_KHR
      | None \<Rightarrow> VK_PRESENT_MODE_FIFO_KHR)"

text \<open>
  \<open>std::clamp (v, lo, hi)\<close>; its behaviour is undefined when \<open>hi < lo\<close>, which is
  \<open>None\<close> here.
\<close>

definition std_clamp :: "32 word \<Rightarrow> 32 word \<Rightarrow> 32 word \<Rightarrow> 32 word option" where
  "std_clamp v lo hi =
     (if hi < lo then None
      else Some (if v < lo then lo else if hi < v then hi else v))"

definition chooseSwapExtent :: "VkSurfaceCapabilitiesKHR \<Rightarrow> VkExtent2D option" where
  "chooseSwapExtent caps =
     (if width (currentExtent caps) = UINT32_MAX then
        (case std_clamp WIDTH (width (minImageExtent caps))
                (width (maxImageExtent caps)) of
           None \<Rightarrow> None
         | Some w \<Rightarrow>
             (case std_clamp HEIGHT (height (minImageExtent caps))
                     (height (maxImageExtent caps)) of
                None \<Rightarrow> None
              | Some h \<Rightarrow> Some \<lparr>width = w, height = h\<rparr>))
      else Some (currentExtent caps))"

text \<open>A capabilities report with given current, smallest and largest extents.\<close>

definition sampleCapabilities :: "VkExtent2D \<Rightarrow> VkExtent2D \<Rightarrow> VkExtent2D \<Rightarrow> VkSurfaceCapabilitiesKHR" where
  "sampleCapabilities current smallest largest =
     \<lparr>minImageCount = 2, maxImageCount = 0, currentExtent = current,
      minImageExtent = smallest, maxImageExtent = largest, currentTransform = 1\<rparr>"

text \<open>The image count computed in \<open>createSwapChain\<close>, in \<open>uint32_t\<close> arithmetic.\<close>

definition createSwapChain_imageCount :: "VkSurfaceCapabilitiesKHR \<Rightarrow> 32 word" where
  "createSwapChain_imageCount caps =
     (let imageCount = minImageCount caps + 1 in
      if maxImageCount caps \<noteq> 0 then
        (if imageCount > maxImageCount caps then maxImageCount caps
         else imageCount)
      else imageCount)"

datatype VkSharingMode = VK_SHARING_MODE_EXCLUSIVE | VK_SHARING_MODE_CONCURRENT

record VkSwapchainCreateInfoKHR =
  createInfo_minImageCount :: "32 word"
  imageFormat :: "32 word"
  imageColorSpace :: "32 word"
  imageExtent :: VkExtent2D
  imageSharingMode :: VkSharingMode
  pQueueFamilyIndices :: "nat list"
  preTransform :: "32 word"
  presentMode :: VkPresentModeKHR

definition optional_value :: "'a option \<Rightarrow> error + 'a" where
  "optional_value opt = (case opt of None \<Rightarrow> Inl bad_optional_access | Some v \<Rightarrow> Inr v)"

text \<open>
  The part of \<open>createSwapChain\<close> that fills the \<open>VkSwapchainCreateInfoKHR\<close>, up to
  the call of the driver.
\<close>

definition swapChainCreateInfo ::
  "QueueFamilyIndices \<Rightarrow> VkPhysicalDevice \<Rightarrow> error + VkSwapchainCreateInfoKHR" where
  "swapChainCreateInfo indices device =
     (let caps = querySwapChainCapabilities device in
      case chooseSwapSurfaceFormat (querySwapChainFormats device) of
        None \<Rightarrow> Inl undefined_behaviour
      | Some surfaceFormat \<Rightarrow>
     (let mode = chooseSwapPresentMode (querySwapChainPresentModes device) in
      case chooseSwapExtent caps of
        None \<Rightarrow> Inl undefined_behaviour
      | Some extent \<Rightarrow>
     (let imageCount = createSwapChain_imageCount caps in
      case optional_value (graphicsFamily indices) of
        Inl e \<Rightarrow> Inl e
      | Inr g \<Rightarrow>
     (case optional_value (presentFamily indices) of
        Inl e \<Rightarrow> Inl e
      | Inr p \<Rightarrow>
          Inr \<lparr>createInfo_minImageCount = imageCount,
               imageFormat = format surfaceFormat,
               imageColorSpace = colorSpace surfaceFormat,
               imageExtent = extent,
               imageSharingMode =
                 (if graphicsFamily indices \<noteq> presentFamily indices
                  then VK_SHARING_MODE_CONCURRENT else VK_SHARING_MODE_EXCLUSIVE),
               pQueueFamilyIndices =
                 (if graphicsFamily indices \<noteq> presentFamily indices then [g, p] else []),
               preTransform = currentTransform caps,
               presentMode = mode\<rparr>))))"

section \<open>Resource lifecycle\<close>

text \<open>
  The driver objects the application creates and destroys. A handle names the kind of
  object and which one of its kind: the index of the swapchain image for an image view or
  a framebuffer, 0 for the vertex and 1 for the fragment shader module, 0 otherwise.
  A call is a creation that succeeded, a creation that failed, or a destruction.
\<close>

datatype object =
    GlfwLibrary | Window | Instance | DebugMessenger | Surface | Device | SwapChain
  | ImageView | RenderPass | ShaderModule | PipelineLayout | GraphicsPipeline | Framebuffer

type_synonym handle = "object \<times> nat"

datatype call = Create handle | CreateFailed handle | Destroy handle

text \<open>
  Everything outside the application: the build configuration
  (\<open>enableValidationLayers\<close> is \<open>IS_DEBUG_BUILD\<close>), the outcome of each call of the
  windowing library and of the driver, what they enumerate, and the shader files.
\<close>

record environment =
  enableValidationLayers :: bool
  glfwInit_ok :: bool
  glfwCreateWindow_ok :: bool
  volkInitialize_ok :: bool
  glfwRequiredInstanceExtensions :: "string list"
  instanceExtensionProperties :: "VkExtensionProperties list"
  instanceLayerProperties :: "VkLayerProperties list"
  vkCreateInstance_ok :: bool
  vkCreateDebugUtilsMessengerEXT_ok :: bool
  glfwCreateWindowSurface_ok :: bool
  enumeratedPhysicalDevices :: "VkPhysicalDevice list"
  vkCreateDevice_ok :: bool
  vkCreateSwapchainKHR_ok :: bool
  swapchainImageCount :: nat
  vkCreateImageView_ok :: "nat \<Rightarrow> bool"
  vkCreateRenderPass_ok :: bool
  fileContents :: "string \<Rightarrow> string option"
  vkCreateShaderModule_ok :: "string \<Rightarrow> bool"
  vkCreatePipelineLayout_ok :: bool
  vkCreateGraphicsPipelines_ok :: bool
  vkCreateFramebuffer_ok :: "nat \<Rightarrow> bool"

text \<open>
  The fields of \<open>HelloTriangleApp\<close> that the bootstrap reads back, and \<open>calls\<close>, the
  record of the calls made so far, oldest first. A field that has not been assigned yet is
  \<open>None\<close>.
\<close>

record HelloTriangleApp =
  calls :: "call list"
  physicalDevice :: "VkPhysicalDevice option"
  queueFamilyIndices :: QueueFamilyIndices
  swapChainImageFormat :: "32 word option"
  swapChainExtent :: "VkExtent2D option"
  swapChainImages :: "nat list"
  swapChainImageViews :: "nat list"
  framebuffers :: "nat option list"

text \<open>
  A member function takes the application's state and returns the new state together
  with its result or the exception it raised; an exception leaves the state as it was
  when raised.
\<close>

type_synonym 'a action = "HelloTriangleApp \<Rightarrow> (error + 'a) \<times> HelloTriangleApp"

definition succeed :: "'a \<Rightarrow> 'a action" where
  "succeed v app = (Inr v, app)"

definition throw :: "error \<Rightarrow> 'a action" where
  "throw e app = (Inl e, app)"

definition andThen :: "'a action \<Rightarrow> ('a \<Rightarrow> 'b action) \<Rightarrow> 'b action" where
  "andThen m f app =
     (case m app of
        (Inl e, app') \<Rightarrow> (Inl e, app')
      | (Inr v, app') \<Rightarrow> f v app')"

definition orThrow :: "error + 'a \<Rightarrow> 'a action" where
  "orThrow r = (case r of Inl e \<Rightarrow> throw e | Inr v \<Rightarrow> succeed v)"

definition logCall :: "call \<Rightarrow> unit action" where
  "logCall c app = (Inr (), app\<lparr>calls := calls app @ [c]\<rparr>)"

text \<open>
  The pattern \<open>if (vkCreateX (...) != VK_SUCCESS) throw std::runtime_error (message)\<close>.
\<close>

definition driverCreate :: "bool \<Rightarrow> handle \<Rightarrow> string \<Rightarrow> unit action" where
  "driverCreate ok h message =
     (if ok then logCall (Create h)
      else andThen (logCall (CreateFailed h)) (\<lambda>_. throw (runtime_error message)))"

definition newApp :: HelloTriangleApp where
  "newApp =
     \<lparr>calls = [], physicalDevice = None,
      queueFamilyIndices =
        \<lparr>graphicsFamily = None, computeFamily = None, transferFamily = None,
         sparseBindingFamily = None, presentFamily = None\<rparr>,
      swapChainImageFormat = None, swapChainExtent = None,
      swapChainImages = [], swapChainImageViews = [], framebuffers = []\<rparr>"

definition VERTEX_SHADER_PATH :: string where "VERTEX_SHADER_PATH = ''vert.spv''"

definition FRAGMENT_SHADER_PATH :: string where "FRAGMENT_SHADER_PATH = ''frag.spv''"

text \<open>The message of \<open>readFile\<close>'s exception is kept without its \<open>errno\<close> suffix.\<close>

definition readFile :: "environment \<Rightarrow> string \<Rightarrow> error + string" where
  "readFile env filename =
     (case fileContents env filename of
        Some contents \<Rightarrow> Inr contents
      | None \<Rightarrow> Inl (runtime_error ''failed to open file''))"

text \<open>\<open>initWindow\<close> checks neither \<open>glfwInit\<close> nor \<open>glfwCreateWindow\<close>.\<close>

definition initWindow :: "environment \<Rightarrow> unit action" where
  "initWindow env =
     andThen (logCall (if glfwInit_ok env then Create (GlfwLibrary, 0)
                       else CreateFailed (GlfwLibrary, 0)))
       (\<lambda>_. logCall (if glfwCreateWindow_ok env then Create (Window, 0)
                      else CreateFailed (Window, 0)))"

definition loadGlobalFunctions :: "environment \<Rightarrow> unit action" where
  "loadGlobalFunctions env =
     (if \<not> volkInitialize_ok env
      then throw (runtime_error ''couldn't load global vulkan functions'')
      else succeed ())"

definition loadInstanceFunctions :: "environment \<Rightarrow> unit action" where
  "loadInstanceFunctions env = succeed ()"

definition getRequiredExtensions :: "environment \<Rightarrow> string list" where
  "getRequiredExtensions env =
     (let extensions = glfwRequiredInstanceExtensions env in
      if enableValidationLayers env then extensions @ [''VK_EXT_debug_utils'']
      else extensions)"

definition getSupportedExtensions :: "environment \<Rightarrow> VkExtensionProperties list" where
  "getSupportedExtensions env = instanceExtensionProperties env"

definition getSupportedLayers :: "environment \<Rightarrow> VkLayerProperties list" where
  "getSupportedLayers env = instanceLayerProperties env"

definition createInstance :: "environment \<Rightarrow> unit action" where
  "createInstance env =
     (let extensions = getRequiredExtensions env;
          supportedExtensions = getSupportedExtensions env in
      if \<not> checkExtensionSupport extensions supportedExtensions
      then throw (runtime_error ''some requested extensions are not supported'')
      else
        (let availableLayers = getSupportedLayers env in
         if enableValidationLayers env \<and> \<not> checkValidationLayerSupport availableLayers
         then throw (runtime_error ''some requested validation layers are not supported'')
         else driverCreate (vkCreateInstance_ok env) (Instance, 0)
                ''failed to create VkInstance''))"

definition setupDebugMessenger :: "environment \<Rightarrow> unit action" where
  "setupDebugMessenger env =
     (if \<not> enableValidationLayers env then succeed ()
      else driverCreate (vkCreateDebugUtilsMessengerEXT_ok env) (DebugMessenger, 0)
             ''cannot setup debug messenger'')"

definition createSurface :: "environment \<Rightarrow> unit action" where
  "createSurface env =
     driverCreate (glfwCreateWindowSurface_ok env) (Surface, 0) ''cannot create window surface''"

definition pickPhysicalDevice :: "environment \<Rightarrow> unit action" where
  "pickPhysicalDevice env =
     andThen (orThrow (findPhysicalDevices (enumeratedPhysicalDevices env)))
       (\<lambda>physicalDevices.
          andThen (orThrow (pickPhysicalDeviceWithHighestScore physicalDevices))
            (\<lambda>picked app. (Inr (), app\<lparr>physicalDevice := Some picked\<rparr>)))"

text \<open>Reading the field \<open>physicalDevice\<close>, which is undefined before it is assigned.\<close>

definition selectedDevice :: "VkPhysicalDevice action" where
  "selectedDevice app =
     (case physicalDevice app of
        None \<Rightarrow> (Inl undefined_behaviour, app)
      | Some device \<Rightarrow> (Inr device, app))"

definition cacheQueueFamilyIndices :: "environment \<Rightarrow> unit action" where
  "cacheQueueFamilyIndices env =
     andThen selectedDevice
       (\<lambda>device app. (Inr (), app\<lparr>queueFamilyIndices := findQueueFamilies device\<rparr>))"

definition createQueueCreateInfos :: "QueueFamilyIndices \<Rightarrow> error + nat set" where
  "createQueueCreateInfos indices =
     (case optional_value (graphicsFamily indices) of
        Inl e \<Rightarrow> Inl e
      | Inr g \<Rightarrow>
          (case optional_value (presentFamily indices) of
             Inl e \<Rightarrow> Inl e
           | Inr p \<Rightarrow> Inr {g, p}))"

definition createLogicalDevice :: "environment \<Rightarrow> unit action" where
  "createLogicalDevice env =
     (\<lambda>app. andThen (orThrow (createQueueCreateInfos (queueFamilyIndices app)))
        (\<lambda>queueCreateInfos.
           driverCreate (vkCreateDevice_ok env) (Device, 0) ''failed to create logical device'')
        app)"

definition retrieveQueueHandles :: "environment \<Rightarrow> unit action" where
  "retrieveQueueHandles env =
     (\<lambda>app. andThen (orThrow (optional_value (graphicsFamily (queueFamilyIndices app))))
        (\<lambda>g. andThen (orThrow (optional_value (presentFamily (queueFamilyIndices app))))
           (\<lambda>p. succeed ()))
        app)"

definition loadDeviceFunctions :: "environment \<Rightarrow> unit action" where
  "loadDeviceFunctions env = succeed ()"

definition createSwapChain :: "environment \<Rightarrow> unit action" where
  "createSwapChain env =
     andThen selectedDevice
       (\<lambda>device app.
          andThen (orThrow (swapChainCreateInfo (queueFamilyIndices app) device))
            (\<lambda>createInfo.
               andThen (driverCreate (vkCreateSwapchainKHR_ok env) (SwapChain, 0)
                          ''failed to create swapchain'')
                 (\<lambda>_ app'. (Inr (), app'\<lparr>swapChainImageFormat := Some (imageFormat createInfo),
                                          swapChainExtent := Some (imageExtent createInfo)\<rparr>)))
            app)"

definition retrieveSwapChainImageHandles :: "environment \<Rightarrow> unit action" where
  "retrieveSwapChainImageHandles env app =
     (Inr (), app\<lparr>swapChainImages := [0 ..< swapchainImageCount env]\<rparr>)"

definition createSwapChainImageView :: "environment \<Rightarrow> nat \<Rightarrow> nat action" where
  "createSwapChainImageView env img =
     andThen (driverCreate (vkCreateImageView_ok env img) (ImageView, img)
                ''failed to create image view'')
       (\<lambda>_. succeed img)"

fun createSwapChainImageViews_loop :: "environment \<Rightarrow> nat list \<Rightarrow> unit action" where
  "createSwapChainImageViews_loop env [] = succeed ()"
| "createSwapChainImageViews_loop env (img # images) =
     andThen (createSwapChainImageView env img)
       (\<lambda>view. andThen (\<lambda>app. (Inr (), app\<lparr>swapChainImageViews := swapChainImageViews app @ [view]\<rparr>))
          (\<lambda>_. createSwapChainImageViews_loop env images))"

definition createSwapChainImageViews :: "environment \<Rightarrow> unit action" where
  "createSwapChainImageViews env app =
     createSwapChainImageViews_loop env (swapChainImages app) app"

definition createRenderPass :: "environment \<Rightarrow> unit action" where
  "createRenderPass env =
     driverCreate (vkCreateRenderPass_ok env) (RenderPass, 0) ''failed to create render pass''"

definition createShaderModule :: "environment \<Rightarrow> nat \<Rightarrow> string \<Rightarrow> handle action" where
  "createShaderModule env n code =
     andThen (driverCreate (vkCreateShaderModule_ok env code) (ShaderModule, n)
                ''failed to create shader module'')
       (\<lambda>_. succeed (ShaderModule, n))"

definition createPipelineLayout :: "environment \<Rightarrow> unit action" where
  "createPipelineLayout env =
     driverCreate (vkCreatePipelineLayout_ok env) (PipelineLayout, 0)
       ''failed to create pipeline layout''"

definition createGraphicsPipeline :: "environment \<Rightarrow> unit action" where
  "createGraphicsPipeline env =
     andThen (orThrow (readFile env VERTEX_SHADER_PATH)) (\<lambda>vertexCode.
     andThen (createShaderModule env 0 vertexCode) (\<lambda>vertexShader.
     andThen (orThrow (readFile env FRAGMENT_SHADER_PATH)) (\<lambda>fragmentCode.
     andThen (createShaderModule env 1 fragmentCode) (\<lambda>fragmentShader.
     andThen (createPipelineLayout env) (\<lambda>_.
       if \<not> vkCreateGraphicsPipelines_ok env then
         andThen (logCall (CreateFailed (GraphicsPipeline, 0))) (\<lambda>_.
         andThen (logCall (Destroy vertexShader)) (\<lambda>_.
         andThen (logCall (Destroy fragmentShader)) (\<lambda>_.
         throw (runtime_error ''failed to create graphics pipeline''))))
       else
         andThen (logCall (Create (GraphicsPipeline, 0))) (\<lambda>_.
         andThen (logCall (Destroy vertexShader)) (\<lambda>_.
         logCall (Destroy fragmentShader))))))))"

fun createFramebuffers_loop :: "environment \<Rightarrow> nat list \<Rightarrow> unit action" where
  "createFramebuffers_loop env [] = succeed ()"
| "createFramebuffers_loop env (i # rest) =
     andThen (driverCreate (vkCreateFramebuffer_ok env i) (Framebuffer, i)
                ''failed to create frambuffer'')
       (\<lambda>_. andThen (\<lambda>app. (Inr (), app\<lparr>framebuffers := (framebuffers app)[i := Some i]\<rparr>))
          (\<lambda>_. createFramebuffers_loop env rest))"

text \<open>
  \<open>framebuffers.resize (n, VK_NULL_HANDLE)\<close>, then one framebuffer per image view.
\<close>

definition createFramebuffers :: "environment \<Rightarrow> unit action" where
  "createFramebuffers env =
     andThen (\<lambda>app. (Inr (),
                app\<lparr>framebuffers :=
                      take (length (swapChainImageViews app)) (framebuffers app)
                      @ replicate (length (swapChainImageViews app) - length (framebuffers app)) None\<rparr>))
       (\<lambda>_ app. createFramebuffers_loop env [0 ..< length (framebuffers app)] app)"

definition initVulkan :: "environment \<Rightarrow> unit action" where
  "initVulkan env =
     andThen (loadGlobalFunctions env) (\<lambda>_.
     andThen (createInstance env) (\<lambda>_.
     andThen (loadInstanceFunctions env) (\<lambda>_.
     andThen (setupDebugMessenger env) (\<lambda>_.
     andThen (createSurface env) (\<lambda>_.
     andThen (pickPhysicalDevice env) (\<lambda>_.
     andThen (cacheQueueFamilyIndices env) (\<lambda>_.
     andThen (createLogicalDevice env) (\<lambda>_.
     andThen (retrieveQueueHandles env) (\<lambda>_.
     andThen (loadDeviceFunctions env) (\<lambda>_.
     andThen (createSwapChain env) (\<lambda>_.
     andThen (retrieveSwapChainImageHandles env) (\<lambda>_.
     andThen (createSwapChainImageViews env) (\<lambda>_.
     andThen (createRenderPass env) (\<lambda>_.
     andThen (createGraphicsPipeline env) (\<lambda>_.
     createFramebuffers env)))))))))))))))"

text \<open>
  \<open>cleanup\<close> raises nothing. Destroying \<open>VK_NULL_HANDLE\<close> is a no-op of the driver and
  is not recorded.
\<close>

definition destroyFramebuffer :: "nat option \<Rightarrow> call list" where
  "destroyFramebuffer framebuffer =
     (case framebuffer of None \<Rightarrow> [] | Some i \<Rightarrow> [Destroy (Framebuffer, i)])"

definition cleanup :: "environment \<Rightarrow> HelloTriangleApp \<Rightarrow> HelloTriangleApp" where
  "cleanup env app =
     app\<lparr>calls := calls app
        @ concat (map destroyFramebuffer (framebuffers app))
        @ [Destroy (GraphicsPipeline, 0), Destroy (PipelineLayout, 0), Destroy (RenderPass, 0)]
        @ map (\<lambda>imageView. Destroy (ImageView, imageView)) (swapChainImageViews app)
        @ [Destroy (SwapChain, 0)]
        @ [Destroy (Device, 0)]
        @ (if enableValidationLayers env then [Destroy (DebugMessenger, 0)] else [])
        @ [Destroy (Surface, 0)]
        @ [Destroy (Instance, 0)]
        @ [Destroy (Window, 0), Destroy (GlfwLibrary, 0)]\<rparr>"

text \<open>
  An environment in which every call succeeds, with one discrete device and two swapchain
  images, for a build with or without validation layers.
\<close>

definition sampleEnvironment :: "bool \<Rightarrow> environment" where
  "sampleEnvironment validation =
     \<lparr>enableValidationLayers = validation,
      glfwInit_ok = True,
      glfwCreateWindow_ok = True,
      volkInitialize_ok = True,
      glfwRequiredInstanceExtensions = [''VK_KHR_surface'', ''VK_KHR_win32_surface''],
      instanceExtensionProperties =
        [\<lparr>extensionName = ''VK_KHR_surface'', specVersion = 25\<rparr>,
         \<lparr>extensionName = ''VK_KHR_win32_surface'', specVersion = 6\<rparr>,
         \<lparr>extensionName = ''VK_EXT_debug_utils'', specVersion = 2\<rparr>],
      instanceLayerProperties =
        [\<lparr>layerName = ''VK_LAYER_KHRONOS_validation'', layerSpecVersion = 1,
          implementationVersion = 1, description = ''Khronos validation layer''\<rparr>],
      vkCreateInstance_ok = True,
      vkCreateDebugUtilsMessengerEXT_ok = True,
      glfwCreateWindowSurface_ok = True,
      enumeratedPhysicalDevices = [sampleDevice VK_PHYSICAL_DEVICE_TYPE_DISCRETE_GPU],
      vkCreateDevice_ok = True,
      vkCreateSwapchainKHR_ok = True,
      swapchainImageCount = 2,
      vkCreateImageView_ok = (\<lambda>_. True),
      vkCreateRenderPass_ok = True,
      fileContents = (\<lambda>name. if name = ''vert.spv'' then Some ''vertex bytecode''
                        else if name = ''frag.spv'' then Some ''fragment bytecode'' else None),
      vkCreateShaderModule_ok = (\<lambda>_. True),
      vkCreatePipelineLayout_ok = True,
      vkCreateGraphicsPipelines_ok = True,
      vkCreateFramebuffer_ok = (\<lambda>_. True)\<rparr>"

section \<open>Reading the record of calls\<close>

text \<open>
  The handles a sequence of calls created, and those it destroyed, each in the order of
  the calls; the handles it left alive, in the order of their creation; and the calls
  made between two states of the application.
\<close>

fun created :: "call list \<Rightarrow> handle list" where
  "created [] = []"
| "created (Create h # cs) = h # created cs"
| "created (CreateFailed h # cs) = created cs"
| "created (Destroy h # cs) = created cs"

fun destroyed :: "call list \<Rightarrow> handle list" where
  "destroyed [] = []"
| "destroyed (Create h # cs) = destroyed cs"
| "destroyed (CreateFailed h # cs) = destroyed cs"
| "destroyed (Destroy h # cs) = h # destroyed cs"

definition live :: "call list \<Rightarrow> handle list" where
  "live cs = filter (\<lambda>h. h \<notin> set (destroyed cs)) (created cs)"

definition callsSince :: "HelloTriangleApp \<Rightarrow> HelloTriangleApp \<Rightarrow> call list" where
  "callsSince earlier later = drop (length (calls earlier)) (calls later)"

text \<open>The first two statements of \<open>run\<close>: the construction sequence.\<close>

definition bootstrap :: "environment \<Rightarrow> unit action" where
  "bootstrap env = andThen (initWindow env) (\<lambda>_. initVulkan env)"

text \<open>
  The objects alive after the construction, in the order of their creation, and the
  objects that \<open>cleanup\<close> destroys, in the order of their destruction.
\<close>

definition constructed :: "HelloTriangleApp \<Rightarrow> handle list" where
  "constructed app = live (calls app)"

definition tornDown :: "environment \<Rightarrow> HelloTriangleApp \<Rightarrow> handle list" where
  "tornDown env app = destroyed (callsSince app (cleanup env app))"

text \<open>\<open>before a b xs\<close>: some occurrence of \<open>a\<close> in \<open>xs\<close> is followed by one of \<open>b\<close>.\<close>

fun before :: "'a \<Rightarrow> 'a \<Rightarrow> 'a list \<Rightarrow> bool" where
  "before a b [] = False"
| "before a b (x # xs) = ((x = a \<and> b \<in> set xs) \<or> before a b xs)"

section \<open>The validator accepts exactly the subsets of the supported names\<close>

lemma strcmp_zero_iff: "strcmp a b = 0 \<longleftrightarrow> a = b"
  by (induction a b rule: strcmp.induct) auto

lemma cstrEquals_iff: "cstrEquals a b \<longleftrightarrow> a = b"
  by (simp add: cstrEquals_def strcmp_zero_iff)

lemma extensionNamePresent_iff:
  "extensionNamePresentInExtensionVector name exts \<longleftrightarrow> name \<in> extensionName ` set exts"
  by (induction exts) (auto simp: cstrEquals_iff)

lemma layerNamePresent_iff:
  "layerNamePresentInLayerVector name ls \<longleftrightarrow> name \<in> layerName ` set ls"
  by (induction ls) (auto simp: cstrEquals_iff)

lemma checkExtensionSupport_iff:
  "checkExtensionSupport names exts \<longleftrightarrow> set names \<subseteq> extensionName ` set exts"
  by (induction names) (auto simp: extensionNamePresent_iff)

lemma checkLayerNames_iff:
  "checkLayerNames names ls \<longleftrightarrow> set names \<subseteq> layerName ` set ls"
  by (induction names) (auto simp: layerNamePresent_iff)

text \<open>
  Claim C5. The support check is true if and only if every required name occurs, byte for
  byte, among the supported names: for extensions against any required list, and for the
  validation layers against the application's fixed layer list. A single absent name, or
  one that differs only in case, makes it false.
\<close>

theorem support_check_iff_all_present:
  "(checkExtensionSupport required availableExtensions
      \<longleftrightarrow> (\<forall>name \<in> set required. \<exists>e \<in> set availableExtensions. extensionName e = name))
   \<and> (checkValidationLayerSupport availableLayers
      \<longleftrightarrow> (\<forall>name \<in> set validationLayers. \<exists>l \<in> set availableLayers. layerName l = name))"
  by (auto simp: checkExtensionSupport_iff checkValidationLayerSupport_def checkLayerNames_iff)

theorem support_check_iff_all_present_witness:
  "checkExtensionSupport [''VK_KHR_surface'', ''VK_EXT_debug_utils'']
     [\<lparr>extensionName = ''VK_EXT_debug_utils'', specVersion = 2\<rparr>,
      \<lparr>extensionName = ''VK_KHR_surface'', specVersion = 25\<rparr>]
   \<and> \<not> checkExtensionSupport [''VK_KHR_surface'', ''VK_EXT_debug_utils'']
     [\<lparr>extensionName = ''VK_EXT_debug_utils'', specVersion = 2\<rparr>,
      \<lparr>extensionName = ''vk_khr_surface'', specVersion = 25\<rparr>]
   \<and> checkValidationLayerSupport
     [\<lparr>layerName = ''VK_LAYER_KHRONOS_validation'', layerSpecVersion = 1,
       implementationVersion = 1, description = ''Khronos validation layer''\<rparr>]
   \<and> \<not> checkValidationLayerSupport []"
  using support_check_iff_all_present
          [of "[''VK_KHR_surface'', ''VK_EXT_debug_utils'']"
              "[\<lparr>extensionName = ''VK_EXT_debug_utils'', specVersion = 2\<rparr>,
                \<lparr>extensionName = ''VK_KHR_surface'', specVersion = 25\<rparr>]"
              "[\<lparr>layerName = ''VK_LAYER_KHRONOS_validation'', layerSpecVersion = 1,
                 implementationVersion = 1, description = ''Khronos validation layer''\<rparr>]"]
        support_check_iff_all_present
          [of "[''VK_KHR_surface'', ''VK_EXT_debug_utils'']"
              "[\<lparr>extensionName = ''VK_EXT_debug_utils'', specVersion = 2\<rparr>,
                \<lparr>extensionName = ''vk_khr_surface'', specVersion = 25\<rparr>]"
              "[]"]
  by (simp add: validationLayers_def cstrEquals_iff)

section \<open>Queue family resolution prefers an exact match, else the last family\<close>

lemma xor_zero_iff: "(a :: 32 word) XOR b = 0 \<longleftrightarrow> a = b"
  by (metis bit.xor_self xor.left_neutral xor.assoc)

lemma loop_None_iff:
  "findQueueFamilyWithCapability_loop qs cap i index = None \<longleftrightarrow>
     index = None \<and> (\<forall>j. i \<le> j \<and> j < length qs \<longrightarrow> queueFlags (qs ! j) AND cap = 0)"
proof (induction qs cap i index rule: findQueueFamilyWithCapability_loop.induct)
  case (1 qs cap i index)
  show ?case
  proof (cases "i < length qs")
    case False
    then show ?thesis
      by (auto simp: findQueueFamilyWithCapability_loop.simps [of qs cap i index])
  next
    case inb: True
    show ?thesis
    proof (cases "queueFlags (qs ! i) AND cap \<noteq> 0")
      case hit: True
      show ?thesis
      proof (cases "queueFlags (qs ! i) XOR cap = 0")
        case True
        with inb hit show ?thesis
          by (auto simp: findQueueFamilyWithCapability_loop.simps [of qs cap i index])
      next
        case False
        with inb hit "1.IH"(1) show ?thesis
          by (auto simp: findQueueFamilyWithCapability_loop.simps [of qs cap i index])
      qed
    next
      case miss: False
      have "(\<forall>j. i \<le> j \<and> j < length qs \<longrightarrow> queueFlags (qs ! j) AND cap = 0)
            \<longleftrightarrow> (\<forall>j. i + 1 \<le> j \<and> j < length qs \<longrightarrow> queueFlags (qs ! j) AND cap = 0)"
        using miss by (metis Suc_eq_plus1 Suc_leI le_neq_implies_less Suc_leD)
      with inb miss "1.IH"(2) show ?thesis
        by (simp add: findQueueFamilyWithCapability_loop.simps [of qs cap i index])
    qed
  qed
qed

lemma loop_first_exact:
  "cap \<noteq> 0 \<Longrightarrow> i \<le> k \<Longrightarrow> k < length qs \<Longrightarrow> queueFlags (qs ! k) = cap
   \<Longrightarrow> (\<forall>j. i \<le> j \<and> j < k \<longrightarrow> queueFlags (qs ! j) \<noteq> cap)
   \<Longrightarrow> findQueueFamilyWithCapability_loop qs cap i index = Some k"
proof (induction qs cap i index rule: findQueueFamilyWithCapability_loop.induct)
  case (1 qs cap i index)
  from "1.prems" have inb: "i < length qs" by simp
  show ?case
  proof (cases "i = k")
    case True
    with "1.prems" inb show ?thesis
      by (simp add: findQueueFamilyWithCapability_loop.simps [of qs cap k index])
  next
    case False
    with "1.prems" have lt: "i + 1 \<le> k" and ne: "queueFlags (qs ! i) \<noteq> cap" by auto
    have rest: "\<forall>j. i + 1 \<le> j \<and> j < k \<longrightarrow> queueFlags (qs ! j) \<noteq> cap"
      using "1.prems"(5) by auto
    from ne have nx: "queueFlags (qs ! i) XOR cap \<noteq> 0" by (simp add: xor_zero_iff)
    show ?thesis
    proof (cases "queueFlags (qs ! i) AND cap \<noteq> 0")
      case True
      from "1.IH"(1) [OF inb True nx "1.prems"(1) lt "1.prems"(3,4) rest] inb True nx
      show ?thesis
        by (simp add: findQueueFamilyWithCapability_loop.simps [of qs cap i index])
    next
      case False
      from "1.IH"(2) [OF inb False "1.prems"(1) lt "1.prems"(3,4) rest] inb False
      show ?thesis
        by (simp add: findQueueFamilyWithCapability_loop.simps [of qs cap i index])
    qed
  qed
qed

lemma loop_no_hit:
  "(\<forall>j. i \<le> j \<and> j < length qs \<longrightarrow> queueFlags (qs ! j) AND cap = 0)
   \<Longrightarrow> findQueueFamilyWithCapability_loop qs cap i index = index"
proof (induction qs cap i index rule: findQueueFamilyWithCapability_loop.induct)
  case (1 qs cap i index)
  show ?case
  proof (cases "i < length qs")
    case True
    with "1.prems" have miss: "\<not> queueFlags (qs ! i) AND cap \<noteq> 0" by simp
    have rest: "\<forall>j. i + 1 \<le> j \<and> j < length qs \<longrightarrow> queueFlags (qs ! j) AND cap = 0"
      using "1.prems" by auto
    from "1.IH"(2) [OF True miss rest] True miss show ?thesis
      by (simp add: findQueueFamilyWithCapability_loop.simps [of qs cap i index])
  next
    case False
    then show ?thesis
      by (simp add: findQueueFamilyWithCapability_loop.simps [of qs cap i index])
  qed
qed

lemma loop_last_containing:
  "(\<forall>j. i \<le> j \<and> j < length qs \<longrightarrow> queueFlags (qs ! j) \<noteq> cap)
   \<Longrightarrow> i \<le> k \<Longrightarrow> k < length qs \<Longrightarrow> queueFlags (qs ! k) AND cap \<noteq> 0
   \<Longrightarrow> (\<forall>j. k < j \<and> j < length qs \<longrightarrow> queueFlags (qs ! j) AND cap = 0)
   \<Longrightarrow> findQueueFamilyWithCapability_loop qs cap i index = Some k"
proof (induction qs cap i index rule: findQueueFamilyWithCapability_loop.induct)
  case (1 qs cap i index)
  from "1.prems" have inb: "i < length qs" by simp
  from "1.prems"(1) inb have nx: "queueFlags (qs ! i) XOR cap \<noteq> 0"
    by (simp add: xor_zero_iff)
  have rest: "\<forall>j. i + 1 \<le> j \<and> j < length qs \<longrightarrow> queueFlags (qs ! j) \<noteq> cap"
    using "1.prems"(1) by auto
  show ?case
  proof (cases "i = k")
    case True
    have "\<forall>j. k + 1 \<le> j \<and> j < length qs \<longrightarrow> queueFlags (qs ! j) AND cap = 0"
      using "1.prems"(5) by auto
    then have "findQueueFamilyWithCapability_loop qs cap (k + 1) (Some k) = Some k"
      by (rule loop_no_hit)
    with True inb nx "1.prems"(4) show ?thesis
      by (simp add: findQueueFamilyWithCapability_loop.simps [of qs cap k index])
  next
    case False
    with "1.prems" have lt: "i + 1 \<le> k" by auto
    show ?thesis
    proof (cases "queueFlags (qs ! i) AND cap \<noteq> 0")
      case True
      from "1.IH"(1) [OF inb True nx rest lt "1.prems"(3,4,5)] inb True nx
      show ?thesis
        by (simp add: findQueueFamilyWithCapability_loop.simps [of qs cap i index])
    next
      case False
      from "1.IH"(2) [OF inb False rest lt "1.prems"(3,4,5)] inb False
      show ?thesis
        by (simp add: findQueueFamilyWithCapability_loop.simps [of qs cap i index])
    qed
  qed
qed

text \<open>
  Claim C4. For a non-zero capability, when some family's flags equal the capability,
  \<open>findQueueFamilyWithCapability\<close> returns the index of such a family (the first one),
  whatever families with more flags stand before or after it; and it returns none exactly
  when no family shares a bit with the capability.
\<close>

theorem exact_family_preferred:
  assumes "capability \<noteq> 0"
  shows "((\<exists>q \<in> set queueFamilies. queueFlags q = capability) \<longrightarrow>
            (\<exists>k < length queueFamilies.
               findQueueFamilyWithCapability queueFamilies capability = Some k
               \<and> queueFlags (queueFamilies ! k) = capability
               \<and> (\<forall>j < k. queueFlags (queueFamilies ! j) \<noteq> capability)))
         \<and> (findQueueFamilyWithCapability queueFamilies capability = None
              \<longleftrightarrow> (\<forall>q \<in> set queueFamilies. queueFlags q AND capability = 0))"
proof (intro conjI impI)
  assume "\<exists>q \<in> set queueFamilies. queueFlags q = capability"
  then obtain n where n: "n < length queueFamilies \<and> queueFlags (queueFamilies ! n) = capability"
    by (auto simp: in_set_conv_nth)
  define k where "k = (LEAST m. m < length queueFamilies \<and> queueFlags (queueFamilies ! m) = capability)"
  have k: "k < length queueFamilies \<and> queueFlags (queueFamilies ! k) = capability"
    unfolding k_def using n by (rule LeastI)
  have least: "\<forall>j < k. queueFlags (queueFamilies ! j) \<noteq> capability"
  proof (intro allI impI notI)
    fix j assume "j < k" and "queueFlags (queueFamilies ! j) = capability"
    with k have "j < length queueFamilies \<and> queueFlags (queueFamilies ! j) = capability" by simp
    then have "k \<le> j" unfolding k_def by (rule Least_le)
    with \<open>j < k\<close> show False by simp
  qed
  have "findQueueFamilyWithCapability_loop queueFamilies capability 0 None = Some k"
    using assms k least by (intro loop_first_exact) auto
  with k least show "\<exists>k < length queueFamilies.
      findQueueFamilyWithCapability queueFamilies capability = Some k
      \<and> queueFlags (queueFamilies ! k) = capability
      \<and> (\<forall>j < k. queueFlags (queueFamilies ! j) \<noteq> capability)"
    by (auto simp: findQueueFamilyWithCapability_def)
next
  show "findQueueFamilyWithCapability queueFamilies capability = None
        \<longleftrightarrow> (\<forall>q \<in> set queueFamilies. queueFlags q AND capability = 0)"
    by (simp add: findQueueFamilyWithCapability_def loop_None_iff all_set_conv_all_nth)
qed

theorem exact_family_preferred_witness:
  "VK_QUEUE_TRANSFER_BIT \<noteq> 0
   \<and> findQueueFamilyWithCapability
        [\<lparr>queueFlags = 7, queueCount = 16\<rparr>, \<lparr>queueFlags = 4, queueCount = 2\<rparr>,
         \<lparr>queueFlags = 6, queueCount = 8\<rparr>] VK_QUEUE_TRANSFER_BIT = Some 1
   \<and> findQueueFamilyWithCapability
        [\<lparr>queueFlags = 7, queueCount = 16\<rparr>, \<lparr>queueFlags = 4, queueCount = 2\<rparr>,
         \<lparr>queueFlags = 6, queueCount = 8\<rparr>] VK_QUEUE_SPARSE_BINDING_BIT = None"
proof -
  let ?qs = "[\<lparr>queueFlags = 7, queueCount = 16\<rparr>, \<lparr>queueFlags = 4, queueCount = 2\<rparr>,
              \<lparr>queueFlags = 6, queueCount = 8\<rparr>]"
  have t: "VK_QUEUE_TRANSFER_BIT \<noteq> 0" and s: "VK_QUEUE_SPARSE_BINDING_BIT \<noteq> 0"
    by (simp_all add: VK_QUEUE_TRANSFER_BIT_def VK_QUEUE_SPARSE_BINDING_BIT_def)
  from exact_family_preferred [OF t, of ?qs]
  obtain k where "k < 3" and "findQueueFamilyWithCapability ?qs VK_QUEUE_TRANSFER_BIT = Some k"
    and "queueFlags (?qs ! k) = VK_QUEUE_TRANSFER_BIT"
    by (auto simp: VK_QUEUE_TRANSFER_BIT_def)
  moreover then have "k = 1"
    by (auto simp: VK_QUEUE_TRANSFER_BIT_def less_Suc_eq numeral_3_eq_3)
  moreover from exact_family_preferred [OF s, of ?qs]
  have "findQueueFamilyWithCapability ?qs VK_QUEUE_SPARSE_BINDING_BIT = None"
    by (simp add: VK_QUEUE_SPARSE_BINDING_BIT_def)
  ultimately show ?thesis using t by simp
qed

text \<open>
  Claim C10. When some family contains the capability and no family's flags equal it,
  the result is the highest index whose family contains the capability.
\<close>

theorem last_containing_family_returned:
  assumes some: "\<exists>q \<in> set queueFamilies. queueFlags q AND capability \<noteq> 0"
    and no_exact: "\<forall>q \<in> set queueFamilies. queueFlags q \<noteq> capability"
  shows "\<exists>k < length queueFamilies.
           findQueueFamilyWithCapability queueFamilies capability = Some k
           \<and> queueFlags (queueFamilies ! k) AND capability \<noteq> 0
           \<and> (\<forall>j. k < j \<and> j < length queueFamilies
                  \<longrightarrow> queueFlags (queueFamilies ! j) AND capability = 0)"
proof -
  let ?hit = "\<lambda>m. m < length queueFamilies \<and> queueFlags (queueFamilies ! m) AND capability \<noteq> 0"
  from some obtain n where n: "?hit n" by (auto simp: in_set_conv_nth)
  define k where "k = (GREATEST m. ?hit m)"
  have k: "?hit k" unfolding k_def
    by (rule GreatestI_nat [where k = n and b = "length queueFamilies"]) (use n in auto)
  have greatest: "\<forall>j. k < j \<and> j < length queueFamilies
                    \<longrightarrow> queueFlags (queueFamilies ! j) AND capability = 0"
  proof (intro allI impI, rule ccontr)
    fix j assume j: "k < j \<and> j < length queueFamilies"
      and "queueFlags (queueFamilies ! j) AND capability \<noteq> 0"
    then have "?hit j" by simp
    then have "j \<le> k" unfolding k_def
      by (rule Greatest_le_nat [where b = "length queueFamilies"]) auto
    with j show False by simp
  qed
  have "findQueueFamilyWithCapability_loop queueFamilies capability 0 None = Some k"
    using no_exact k greatest by (intro loop_last_containing) auto
  with k greatest show ?thesis
    by (auto simp: findQueueFamilyWithCapability_def)
qed


theorem last_containing_family_returned_witness:
  "findQueueFamilyWithCapability
     [\<lparr>queueFlags = 3, queueCount = 16\<rparr>, \<lparr>queueFlags = 4, queueCount = 2\<rparr>,
      \<lparr>queueFlags = 7, queueCount = 8\<rparr>, \<lparr>queueFlags = 12, queueCount = 1\<rparr>]
     VK_QUEUE_GRAPHICS_BIT = Some 2"
proof -
  let ?qs = "[\<lparr>queueFlags = 3, queueCount = 16\<rparr>, \<lparr>queueFlags = 4, queueCount = 2\<rparr>,
              \<lparr>queueFlags = 7, queueCount = 8\<rparr>, \<lparr>queueFlags = 12, queueCount = 1\<rparr>]"
  have "\<exists>q \<in> set ?qs. queueFlags q AND VK_QUEUE_GRAPHICS_BIT \<noteq> 0"
    and "\<forall>q \<in> set ?qs. queueFlags q \<noteq> VK_QUEUE_GRAPHICS_BIT"
    by (simp_all add: VK_QUEUE_GRAPHICS_BIT_def)
  from last_containing_family_returned [OF this]
  obtain k where k: "k < 4" "findQueueFamilyWithCapability ?qs VK_QUEUE_GRAPHICS_BIT = Some k"
    "queueFlags (?qs ! k) AND VK_QUEUE_GRAPHICS_BIT \<noteq> 0"
    "\<forall>j. k < j \<and> j < 4 \<longrightarrow> queueFlags (?qs ! j) AND VK_QUEUE_GRAPHICS_BIT = 0"
    by auto
  have "\<not> k < 2"
    using k(4) [rule_format, of 2] by (auto simp: VK_QUEUE_GRAPHICS_BIT_def)
  with k(1) have "k = 2 \<or> k = 3" by auto
  with k(3) have "k = 2"
    by (auto simp: VK_QUEUE_GRAPHICS_BIT_def)
  with k(2) show ?thesis by simp
qed

section \<open>Device scoring and selection\<close>

lemma calculatePhysicalDeviceScore_cases:
  "calculatePhysicalDeviceScore device =
     (if \<not> isDeviceSuitable device then 0
      else if deviceType device = VK_PHYSICAL_DEVICE_TYPE_DISCRETE_GPU
              \<or> deviceType device = VK_PHYSICAL_DEVICE_TYPE_VIRTUAL_GPU then 1001
      else 1)"
  by (cases "deviceType device")
     (simp_all add: calculatePhysicalDeviceScore_def DEVICE_NON_SUITABLE_SCORE_def)

text \<open>
  Claim C2, at a suitable virtual GPU: its type is not discrete, and its score is 1001,
  the score of a discrete device, because the type is tested with a bitwise and against
  the enumerator 2 and the virtual GPU's enumerator is 3.
\<close>

theorem virtual_gpu_scored_as_discrete:
  "isDeviceSuitable (sampleDevice VK_PHYSICAL_DEVICE_TYPE_VIRTUAL_GPU)
   \<and> deviceType (sampleDevice VK_PHYSICAL_DEVICE_TYPE_VIRTUAL_GPU)
       \<noteq> VK_PHYSICAL_DEVICE_TYPE_DISCRETE_GPU
   \<and> calculatePhysicalDeviceScore (sampleDevice VK_PHYSICAL_DEVICE_TYPE_VIRTUAL_GPU) = 1001"
  by code_simp

lemma score_nonneg: "0 \<le> calculatePhysicalDeviceScore d"
  by (simp add: calculatePhysicalDeviceScore_def DEVICE_NON_SUITABLE_SCORE_def Let_def)

lemma pick_fold_invariant:
  "n \<le> length ds \<Longrightarrow>
   fold (pickPhysicalDeviceWithHighestScore_step ds) [0 ..< n] (0, 0) = (hs, b) \<Longrightarrow>
     (\<forall>j < n. calculatePhysicalDeviceScore (ds ! j) \<le> hs)
     \<and> (if hs = 0 then b = 0
        else b < n \<and> calculatePhysicalDeviceScore (ds ! b) = hs
             \<and> (\<forall>j < b. calculatePhysicalDeviceScore (ds ! j) < hs))"
proof (induction n arbitrary: hs b)
  case 0
  then show ?case by simp
next
  case (Suc n)
  obtain hs0 b0 where prev: "fold (pickPhysicalDeviceWithHighestScore_step ds) [0 ..< n] (0, 0) = (hs0, b0)"
    by (cases "fold (pickPhysicalDeviceWithHighestScore_step ds) [0 ..< n] (0, 0)")
  from Suc.prems(1) have "n \<le> length ds" by simp
  from Suc.IH [OF this prev]
  have le: "\<forall>j < n. calculatePhysicalDeviceScore (ds ! j) \<le> hs0"
    and best: "if hs0 = 0 then b0 = 0
               else b0 < n \<and> calculatePhysicalDeviceScore (ds ! b0) = hs0
                    \<and> (\<forall>j < b0. calculatePhysicalDeviceScore (ds ! j) < hs0)"
    by simp_all
  from Suc.prems(2) prev
  have step: "pickPhysicalDeviceWithHighestScore_step ds n (hs0, b0) = (hs, b)"
    by simp
  show ?case
  proof (cases "calculatePhysicalDeviceScore (ds ! n) > hs0")
    case True
    with step have eq: "hs = calculatePhysicalDeviceScore (ds ! n)" "b = n"
      by (auto simp: pickPhysicalDeviceWithHighestScore_step_def)
    have "0 \<le> hs0"
      using best score_nonneg [of "ds ! b0"] by (auto split: if_splits)
    with True eq le show ?thesis
      by (auto simp: less_Suc_eq)
  next
    case False
    with step have eq: "hs = hs0" "b = b0"
      by (auto simp: pickPhysicalDeviceWithHighestScore_step_def)
    with False le best show ?thesis
      by (auto simp: less_Suc_eq split: if_splits)
  qed
qed

text \<open>
  Claim C3. When some candidate scores above 0, \<open>pickPhysicalDeviceWithHighestScore\<close>
  returns a candidate of the list whose score no other exceeds and that every earlier
  candidate is strictly below; whatever it returns has a non-zero score; when every
  candidate scores 0 it raises "no suitable gpu found"; and \<open>findPhysicalDevices\<close>
  raises the different error "failed to find gpu supporting vulkan" on an empty
  enumeration and returns a non-empty enumeration as it is.
\<close>

theorem highest_score_device_picked:
  "((\<exists>d \<in> set physicalDevices. 0 < calculatePhysicalDeviceScore d) \<longrightarrow>
      (\<exists>i < length physicalDevices.
         pickPhysicalDeviceWithHighestScore physicalDevices = Inr (physicalDevices ! i)
         \<and> (\<forall>d \<in> set physicalDevices.
               calculatePhysicalDeviceScore d \<le> calculatePhysicalDeviceScore (physicalDevices ! i))
         \<and> (\<forall>j < i. calculatePhysicalDeviceScore (physicalDevices ! j)
                        < calculatePhysicalDeviceScore (physicalDevices ! i))))
   \<and> (\<forall>d. pickPhysicalDeviceWithHighestScore physicalDevices = Inr d \<longrightarrow>
          d \<in> set physicalDevices \<and> calculatePhysicalDeviceScore d \<noteq> 0)
   \<and> ((\<forall>d \<in> set physicalDevices. calculatePhysicalDeviceScore d = 0) \<longrightarrow>
        pickPhysicalDeviceWithHighestScore physicalDevices
          = Inl (runtime_error ''no suitable gpu found''))
   \<and> findPhysicalDevices [] = Inl (runtime_error ''failed to find gpu supporting vulkan'')
   \<and> (physicalDevices \<noteq> [] \<longrightarrow> findPhysicalDevices physicalDevices = Inr physicalDevices)
   \<and> runtime_error ''failed to find gpu supporting vulkan'' \<noteq> runtime_error ''no suitable gpu found''"
proof -
  obtain hs b where f: "fold (pickPhysicalDeviceWithHighestScore_step physicalDevices)
      [0 ..< length physicalDevices] (0, 0) = (hs, b)"
    by (cases "fold (pickPhysicalDeviceWithHighestScore_step physicalDevices)
      [0 ..< length physicalDevices] (0, 0)")
  from pick_fold_invariant [OF le_refl f]
  have le: "\<forall>j < length physicalDevices. calculatePhysicalDeviceScore (physicalDevices ! j) \<le> hs"
    and best: "hs \<noteq> 0 \<Longrightarrow> b < length physicalDevices
        \<and> calculatePhysicalDeviceScore (physicalDevices ! b) = hs
        \<and> (\<forall>j < b. calculatePhysicalDeviceScore (physicalDevices ! j) < hs)"
    by (simp_all split: if_splits)
  have res: "pickPhysicalDeviceWithHighestScore physicalDevices =
      (if hs = 0 then Inl (runtime_error ''no suitable gpu found'') else Inr (physicalDevices ! b))"
    using f by (simp add: pickPhysicalDeviceWithHighestScore_def DEVICE_NON_SUITABLE_SCORE_def)
  have all_le: "\<forall>d \<in> set physicalDevices. calculatePhysicalDeviceScore d \<le> hs"
    using le by (simp add: all_set_conv_all_nth)
  have c1: "(\<exists>d \<in> set physicalDevices. 0 < calculatePhysicalDeviceScore d) \<longrightarrow>
      (\<exists>i < length physicalDevices.
         pickPhysicalDeviceWithHighestScore physicalDevices = Inr (physicalDevices ! i)
         \<and> (\<forall>d \<in> set physicalDevices.
               calculatePhysicalDeviceScore d \<le> calculatePhysicalDeviceScore (physicalDevices ! i))
         \<and> (\<forall>j < i. calculatePhysicalDeviceScore (physicalDevices ! j)
                        < calculatePhysicalDeviceScore (physicalDevices ! i)))"
  proof
    assume "\<exists>d \<in> set physicalDevices. 0 < calculatePhysicalDeviceScore d"
    with all_le have "hs \<noteq> 0" by fastforce
    from best [OF this] res \<open>hs \<noteq> 0\<close> all_le
    show "\<exists>i < length physicalDevices.
         pickPhysicalDeviceWithHighestScore physicalDevices = Inr (physicalDevices ! i)
         \<and> (\<forall>d \<in> set physicalDevices.
               calculatePhysicalDeviceScore d \<le> calculatePhysicalDeviceScore (physicalDevices ! i))
         \<and> (\<forall>j < i. calculatePhysicalDeviceScore (physicalDevices ! j)
                        < calculatePhysicalDeviceScore (physicalDevices ! i))"
      by (intro exI [of _ b]) simp
  qed
  have c2: "\<forall>d. pickPhysicalDeviceWithHighestScore physicalDevices = Inr d \<longrightarrow>
          d \<in> set physicalDevices \<and> calculatePhysicalDeviceScore d \<noteq> 0"
    using res best by (auto split: if_splits)
  have c3: "(\<forall>d \<in> set physicalDevices. calculatePhysicalDeviceScore d = 0) \<longrightarrow>
        pickPhysicalDeviceWithHighestScore physicalDevices
          = Inl (runtime_error ''no suitable gpu found'')"
  proof
    assume z: "\<forall>d \<in> set physicalDevices. calculatePhysicalDeviceScore d = 0"
    have "hs = 0"
    proof (rule ccontr)
      assume "hs \<noteq> 0"
      from best [OF this] z \<open>hs \<noteq> 0\<close> show False by (metis nth_mem)
    qed
    with res show "pickPhysicalDeviceWithHighestScore physicalDevices
          = Inl (runtime_error ''no suitable gpu found'')" by simp
  qed
  have c4: "findPhysicalDevices [] = Inl (runtime_error ''failed to find gpu supporting vulkan'')"
    by (simp add: findPhysicalDevices_def)
  have c5: "physicalDevices \<noteq> [] \<longrightarrow> findPhysicalDevices physicalDevices = Inr physicalDevices"
    by (simp add: findPhysicalDevices_def)
  have c6: "runtime_error ''failed to find gpu supporting vulkan'' \<noteq> runtime_error ''no suitable gpu found''"
    by simp
  from c1 c2 c3 c4 c5 c6 show ?thesis by (intro conjI)
qed

theorem highest_score_device_picked_witness:
  "0 < calculatePhysicalDeviceScore (sampleDevice VK_PHYSICAL_DEVICE_TYPE_INTEGRATED_GPU)
   \<and> pickPhysicalDeviceWithHighestScore
        [(sampleDevice VK_PHYSICAL_DEVICE_TYPE_CPU)\<lparr>surfaceFormats := []\<rparr>,
         sampleDevice VK_PHYSICAL_DEVICE_TYPE_INTEGRATED_GPU,
         sampleDevice VK_PHYSICAL_DEVICE_TYPE_DISCRETE_GPU,
         (sampleDevice VK_PHYSICAL_DEVICE_TYPE_DISCRETE_GPU)\<lparr>surfaceSupport := [0, 1]\<rparr>]
       = Inr (sampleDevice VK_PHYSICAL_DEVICE_TYPE_DISCRETE_GPU)
   \<and> calculatePhysicalDeviceScore (sampleDevice VK_PHYSICAL_DEVICE_TYPE_DISCRETE_GPU) \<noteq> 0
   \<and> calculatePhysicalDeviceScore
        ((sampleDevice VK_PHYSICAL_DEVICE_TYPE_CPU)\<lparr>surfaceFormats := []\<rparr>) = 0
   \<and> pickPhysicalDeviceWithHighestScore
        [(sampleDevice VK_PHYSICAL_DEVICE_TYPE_CPU)\<lparr>surfaceFormats := []\<rparr>]
       = Inl (runtime_error ''no suitable gpu found'')"
proof -
  let ?bad = "(sampleDevice VK_PHYSICAL_DEVICE_TYPE_CPU)\<lparr>surfaceFormats := []\<rparr>"
  let ?ds = "[?bad, sampleDevice VK_PHYSICAL_DEVICE_TYPE_INTEGRATED_GPU,
              sampleDevice VK_PHYSICAL_DEVICE_TYPE_DISCRETE_GPU,
              (sampleDevice VK_PHYSICAL_DEVICE_TYPE_DISCRETE_GPU)\<lparr>surfaceSupport := [0, 1]\<rparr>]"
  have some: "0 < calculatePhysicalDeviceScore (sampleDevice VK_PHYSICAL_DEVICE_TYPE_INTEGRATED_GPU)"
    by code_simp
  have picked: "pickPhysicalDeviceWithHighestScore ?ds
                 = Inr (sampleDevice VK_PHYSICAL_DEVICE_TYPE_DISCRETE_GPU)" by code_simp
  have none: "calculatePhysicalDeviceScore ?bad = 0" by code_simp
  from highest_score_device_picked [of ?ds] picked
  have nz: "calculatePhysicalDeviceScore (sampleDevice VK_PHYSICAL_DEVICE_TYPE_DISCRETE_GPU) \<noteq> 0"
    by blast
  from none have "\<forall>d \<in> set [?bad]. calculatePhysicalDeviceScore d = 0" by simp
  with highest_score_device_picked [of "[?bad]"]
  have fails: "pickPhysicalDeviceWithHighestScore [?bad] = Inl (runtime_error ''no suitable gpu found'')"
    by blast
  from some picked nz none fails show ?thesis by (intro conjI)
qed

section \<open>Surface negotiation\<close>

lemma find_preferred:
  "find (\<lambda>f. format f = a \<and> colorSpace f = b) fs =
     (if \<lparr>format = a, colorSpace = b\<rparr> \<in> set fs then Some \<lparr>format = a, colorSpace = b\<rparr> else None)"
  by (induction fs) auto

text \<open>
  Claim C7. On a non-empty list, \<open>chooseSwapSurfaceFormat\<close> returns the pair of
  \<open>VK_FORMAT_B8G8R8_UNORM\<close> with the non-linear sRGB colour space when the list holds
  it anywhere, and the first entry of the list otherwise.
\<close>

theorem preferred_format_or_first:
  assumes "availableFormats \<noteq> []"
  shows "(\<lparr>format = VK_FORMAT_B8G8R8_UNORM, colorSpace = VK_COLOR_SPACE_SRGB_NONLINEAR_KHR\<rparr>
            \<in> set availableFormats \<longrightarrow>
          chooseSwapSurfaceFormat availableFormats =
            Some \<lparr>format = VK_FORMAT_B8G8R8_UNORM, colorSpace = VK_COLOR_SPACE_SRGB_NONLINEAR_KHR\<rparr>)
       \<and> (\<lparr>format = VK_FORMAT_B8G8R8_UNORM, colorSpace = VK_COLOR_SPACE_SRGB_NONLINEAR_KHR\<rparr>
            \<notin> set availableFormats \<longrightarrow>
          chooseSwapSurfaceFormat availableFormats = Some (hd availableFormats))"
  using assms
  by (cases availableFormats) (simp_all add: chooseSwapSurfaceFormat_def find_preferred)

theorem preferred_format_or_first_witness:
  "[\<lparr>format = 44, colorSpace = 0\<rparr>, \<lparr>format = 30, colorSpace = 0\<rparr>] \<noteq> []
   \<and> chooseSwapSurfaceFormat [\<lparr>format = 44, colorSpace = 0\<rparr>, \<lparr>format = 30, colorSpace = 0\<rparr>]
       = Some \<lparr>format = 30, colorSpace = 0\<rparr>
   \<and> chooseSwapSurfaceFormat [\<lparr>format = 44, colorSpace = 0\<rparr>, \<lparr>format = 30, colorSpace = 1\<rparr>]
       = Some \<lparr>format = 44, colorSpace = 0\<rparr>"
  using preferred_format_or_first [of "[\<lparr>format = 44, colorSpace = 0\<rparr>, \<lparr>format = 30, colorSpace = 0\<rparr>]"]
        preferred_format_or_first [of "[\<lparr>format = 44, colorSpace = 0\<rparr>, \<lparr>format = 30, colorSpace = 1\<rparr>]"]
  by (simp add: VK_FORMAT_B8G8R8_UNORM_def VK_COLOR_SPACE_SRGB_NONLINEAR_KHR_def)

text \<open>
  Claim C6. When the current extent's width is not the sentinel \<open>UINT32_MAX\<close>,
  \<open>chooseSwapExtent\<close> returns the current extent as reported. When it is the sentinel
  and the smallest extent is at most the largest, it returns 800 by 600 clamped into that
  range, in each dimension; in particular exactly 800 by 600 when that lies in the range.
\<close>

theorem swap_extent_clamped_or_current:
  "(width (currentExtent caps) \<noteq> UINT32_MAX \<longrightarrow>
      chooseSwapExtent caps = Some (currentExtent caps))
   \<and> (width (currentExtent caps) = UINT32_MAX
        \<and> width (minImageExtent caps) \<le> width (maxImageExtent caps)
        \<and> height (minImageExtent caps) \<le> height (maxImageExtent caps) \<longrightarrow>
      chooseSwapExtent caps =
        Some \<lparr>width = max (width (minImageExtent caps))
                          (min (width (maxImageExtent caps)) 800),
              height = max (height (minImageExtent caps))
                           (min (height (maxImageExtent caps)) 600)\<rparr>)
   \<and> (width (currentExtent caps) = UINT32_MAX
        \<and> width (minImageExtent caps) \<le> 800 \<and> 800 \<le> width (maxImageExtent caps)
        \<and> height (minImageExtent caps) \<le> 600 \<and> 600 \<le> height (maxImageExtent caps) \<longrightarrow>
      chooseSwapExtent caps = Some \<lparr>width = 800, height = 600\<rparr>)"
proof -
  have clamp: "lo \<le> hi \<Longrightarrow> std_clamp v lo hi = Some (max lo (min hi v))" for v lo hi :: "32 word"
    by (auto simp: std_clamp_def max_def min_def)
  have inside: "lo \<le> v \<Longrightarrow> v \<le> hi \<Longrightarrow> std_clamp v lo hi = Some v" for v lo hi :: "32 word"
    by (auto simp: std_clamp_def)
  show ?thesis
    by (simp add: chooseSwapExtent_def clamp inside WIDTH_def HEIGHT_def)
qed

theorem swap_extent_clamped_or_current_witness:
  "chooseSwapExtent (sampleCapabilities \<lparr>width = 1024, height = 768\<rparr>
       \<lparr>width = 1, height = 1\<rparr> \<lparr>width = 4096, height = 4096\<rparr>)
     = Some \<lparr>width = 1024, height = 768\<rparr>
   \<and> chooseSwapExtent (sampleCapabilities \<lparr>width = 0xFFFFFFFF, height = 0xFFFFFFFF\<rparr>
       \<lparr>width = 1, height = 1\<rparr> \<lparr>width = 4096, height = 4096\<rparr>)
     = Some \<lparr>width = 800, height = 600\<rparr>
   \<and> chooseSwapExtent (sampleCapabilities \<lparr>width = 0xFFFFFFFF, height = 0xFFFFFFFF\<rparr>
       \<lparr>width = 1, height = 1\<rparr> \<lparr>width = 640, height = 480\<rparr>)
     = Some \<lparr>width = 640, height = 480\<rparr>"
  using swap_extent_clamped_or_current [of "sampleCapabilities \<lparr>width = 1024, height = 768\<rparr>
       \<lparr>width = 1, height = 1\<rparr> \<lparr>width = 4096, height = 4096\<rparr>"]
    swap_extent_clamped_or_current [of "sampleCapabilities \<lparr>width = 0xFFFFFFFF, height = 0xFFFFFFFF\<rparr>
       \<lparr>width = 1, height = 1\<rparr> \<lparr>width = 4096, height = 4096\<rparr>"]
    swap_extent_clamped_or_current [of "sampleCapabilities \<lparr>width = 0xFFFFFFFF, height = 0xFFFFFFFF\<rparr>
       \<lparr>width = 1, height = 1\<rparr> \<lparr>width = 640, height = 480\<rparr>"]
  by (simp add: sampleCapabilities_def UINT32_MAX_def)

text \<open>
  Claim C8, as stated, at a report whose minimum image count is \<open>UINT32_MAX\<close>: the sum
  of the minimum and 1 wraps around in \<open>uint32_t\<close>, so the chosen count is 0, with a
  maximum of 3 (where the minimum plus 1 clamped to the maximum is 3) and without a maximum
  (where the minimum plus 1 is 4294967296).
\<close>

theorem image_count_wraps_at_UINT32_MAX:
  "minImageCount
     ((sampleCapabilities \<lparr>width = 800, height = 600\<rparr> \<lparr>width = 1, height = 1\<rparr>
        \<lparr>width = 4096, height = 4096\<rparr>)\<lparr>minImageCount := 0xFFFFFFFF, maxImageCount := 3\<rparr>)
     = UINT32_MAX
   \<and> unat (createSwapChain_imageCount
     ((sampleCapabilities \<lparr>width = 800, height = 600\<rparr> \<lparr>width = 1, height = 1\<rparr>
        \<lparr>width = 4096, height = 4096\<rparr>)\<lparr>minImageCount := 0xFFFFFFFF, maxImageCount := 3\<rparr>))
     = 0
   \<and> min (unat (0xFFFFFFFF :: 32 word) + 1) (unat (3 :: 32 word)) = 3
   \<and> unat (createSwapChain_imageCount
     ((sampleCapabilities \<lparr>width = 800, height = 600\<rparr> \<lparr>width = 1, height = 1\<rparr>
        \<lparr>width = 4096, height = 4096\<rparr>)\<lparr>minImageCount := 0xFFFFFFFF, maxImageCount := 0\<rparr>))
     = 0
   \<and> unat (0xFFFFFFFF :: 32 word) + 1 = 4294967296
   \<and> unat (createSwapChain_imageCount
     ((sampleCapabilities \<lparr>width = 800, height = 600\<rparr> \<lparr>width = 1, height = 1\<rparr>
        \<lparr>width = 4096, height = 4096\<rparr>)\<lparr>minImageCount := 0xFFFFFFFF, maxImageCount := 3\<rparr>))
     \<noteq> min (unat (minImageCount
     ((sampleCapabilities \<lparr>width = 800, height = 600\<rparr> \<lparr>width = 1, height = 1\<rparr>
        \<lparr>width = 4096, height = 4096\<rparr>)\<lparr>minImageCount := 0xFFFFFFFF, maxImageCount := 3\<rparr>)) + 1)
         (unat (maxImageCount
     ((sampleCapabilities \<lparr>width = 800, height = 600\<rparr> \<lparr>width = 1, height = 1\<rparr>
        \<lparr>width = 4096, height = 4096\<rparr>)\<lparr>minImageCount := 0xFFFFFFFF, maxImageCount := 3\<rparr>)))
   \<and> unat (createSwapChain_imageCount
     ((sampleCapabilities \<lparr>width = 800, height = 600\<rparr> \<lparr>width = 1, height = 1\<rparr>
        \<lparr>width = 4096, height = 4096\<rparr>)\<lparr>minImageCount := 0xFFFFFFFF, maxImageCount := 0\<rparr>))
     \<noteq> unat (minImageCount
     ((sampleCapabilities \<lparr>width = 800, height = 600\<rparr> \<lparr>width = 1, height = 1\<rparr>
        \<lparr>width = 4096, height = 4096\<rparr>)\<lparr>minImageCount := 0xFFFFFFFF, maxImageCount := 0\<rparr>)) + 1"
  by (simp add: sampleCapabilities_def createSwapChain_imageCount_def UINT32_MAX_def)

text \<open>
  Claim C8, amended. For every report whose minimum image count is below
  \<open>UINT32_MAX\<close>, the chosen image count, read as a number, is the minimum plus 1 when the
  maximum is 0, and the smaller of the minimum plus 1 and the maximum otherwise. A minimum
  of 2 gives 3 without a maximum and 2 with a maximum of 2. This count is the
  \<open>minImageCount\<close> of the create info that \<open>createSwapChain\<close> hands to the driver.
\<close>

theorem image_count_min_plus_one_clamped_below_UINT32_MAX:
  assumes below: "minImageCount caps \<noteq> UINT32_MAX"
  shows "unat (createSwapChain_imageCount caps) =
           (if maxImageCount caps = 0 then unat (minImageCount caps) + 1
            else min (unat (minImageCount caps) + 1) (unat (maxImageCount caps)))
         \<and> (minImageCount caps = 2 \<and> maxImageCount caps = 0 \<longrightarrow>
               createSwapChain_imageCount caps = 3)
         \<and> (minImageCount caps = 2 \<and> maxImageCount caps = 2 \<longrightarrow>
               createSwapChain_imageCount caps = 2)
         \<and> (\<forall>indices device createInfo.
               swapChainCreateInfo indices device = Inr createInfo \<longrightarrow>
               createInfo_minImageCount createInfo
                 = createSwapChain_imageCount (querySwapChainCapabilities device))"
proof -
  have nz: "minImageCount caps + 1 \<noteq> 0"
  proof
    assume "minImageCount caps + 1 = 0"
    then have "minImageCount caps = - 1" by (simp add: add_eq_0_iff2)
    with below show False by (simp add: UINT32_MAX_def)
  qed
  have u: "unat (minImageCount caps + 1) = unat (minImageCount caps) + 1"
    using nz unatSuc [of "minImageCount caps"] by (simp add: add.commute)
  have number: "unat (createSwapChain_imageCount caps) =
        (if maxImageCount caps = 0 then unat (minImageCount caps) + 1
         else min (unat (minImageCount caps) + 1) (unat (maxImageCount caps)))"
    using u by (auto simp: createSwapChain_imageCount_def Let_def word_less_nat_alt min_def)
  have examples: "(minImageCount caps = 2 \<and> maxImageCount caps = 0 \<longrightarrow>
      createSwapChain_imageCount caps = 3)
   \<and> (minImageCount caps = 2 \<and> maxImageCount caps = 2 \<longrightarrow>
      createSwapChain_imageCount caps = 2)"
    by (simp add: createSwapChain_imageCount_def)
  have handed: "\<forall>indices device createInfo.
        swapChainCreateInfo indices device = Inr createInfo \<longrightarrow>
        createInfo_minImageCount createInfo
          = createSwapChain_imageCount (querySwapChainCapabilities device)"
    by (auto simp: swapChainCreateInfo_def Let_def split: option.splits sum.splits)
  from number examples handed show ?thesis by (intro conjI) simp_all
qed

theorem image_count_min_plus_one_clamped_below_UINT32_MAX_witness:
  "minImageCount
     (sampleCapabilities \<lparr>width = 800, height = 600\<rparr> \<lparr>width = 1, height = 1\<rparr>
        \<lparr>width = 4096, height = 4096\<rparr>) \<noteq> UINT32_MAX
   \<and> createSwapChain_imageCount
     (sampleCapabilities \<lparr>width = 800, height = 600\<rparr> \<lparr>width = 1, height = 1\<rparr>
        \<lparr>width = 4096, height = 4096\<rparr>) = 3
   \<and> createSwapChain_imageCount
     ((sampleCapabilities \<lparr>width = 800, height = 600\<rparr> \<lparr>width = 1, height = 1\<rparr>
        \<lparr>width = 4096, height = 4096\<rparr>)\<lparr>maxImageCount := 2\<rparr>) = 2
   \<and> unat (createSwapChain_imageCount
     ((sampleCapabilities \<lparr>width = 800, height = 600\<rparr> \<lparr>width = 1, height = 1\<rparr>
        \<lparr>width = 4096, height = 4096\<rparr>)\<lparr>minImageCount := 3, maxImageCount := 8\<rparr>)) = 4"
proof -
  let ?c = "sampleCapabilities \<lparr>width = 800, height = 600\<rparr> \<lparr>width = 1, height = 1\<rparr>
              \<lparr>width = 4096, height = 4096\<rparr>"
  have b1: "minImageCount ?c \<noteq> UINT32_MAX"
    and b2: "minImageCount (?c\<lparr>maxImageCount := 2\<rparr>) \<noteq> UINT32_MAX"
    and b3: "minImageCount (?c\<lparr>minImageCount := 3, maxImageCount := 8\<rparr>) \<noteq> UINT32_MAX"
    by (simp_all add: sampleCapabilities_def UINT32_MAX_def)
  from image_count_min_plus_one_clamped_below_UINT32_MAX [OF b1]
       image_count_min_plus_one_clamped_below_UINT32_MAX [OF b2]
       image_count_min_plus_one_clamped_below_UINT32_MAX [OF b3] b1
  show ?thesis by (simp add: sampleCapabilities_def)
qed

section \<open>Shader modules and pipeline creation\<close>

lemma andThen_Inr:
  "andThen m f app = (Inr v, app'') \<longleftrightarrow> (\<exists>u app'. m app = (Inr u, app') \<and> f u app' = (Inr v, app''))"
  by (auto simp: andThen_def split: prod.splits sum.splits)

lemma andThen_cases:
  "andThen m f app =
     (case m app of (Inl e, app') \<Rightarrow> (Inl e, app') | (Inr u, app') \<Rightarrow> f u app')"
  by (simp add: andThen_def)

lemma driverCreate_eq:
  "driverCreate ok h message app =
     (if ok then (Inr (), app\<lparr>calls := calls app @ [Create h]\<rparr>)
      else (Inl (runtime_error message), app\<lparr>calls := calls app @ [CreateFailed h]\<rparr>))"
  by (simp add: driverCreate_def logCall_def andThen_def throw_def)

lemma createShaderModule_eq:
  "createShaderModule env n code app =
     (if vkCreateShaderModule_ok env code
      then (Inr (ShaderModule, n), app\<lparr>calls := calls app @ [Create (ShaderModule, n)]\<rparr>)
      else (Inl (runtime_error ''failed to create shader module''),
            app\<lparr>calls := calls app @ [CreateFailed (ShaderModule, n)]\<rparr>))"
  by (simp add: createShaderModule_def driverCreate_eq andThen_def succeed_def)

lemma callsSince_append [simp]:
  "calls later = calls earlier @ cs \<Longrightarrow> callsSince earlier later = cs"
  by (simp add: callsSince_def)

lemma createGraphicsPipeline_eq:
  "createGraphicsPipeline env app =
     (case fileContents env VERTEX_SHADER_PATH of
        None \<Rightarrow> (Inl (runtime_error ''failed to open file''), app)
      | Some vertexCode \<Rightarrow>
     if \<not> vkCreateShaderModule_ok env vertexCode then
       (Inl (runtime_error ''failed to create shader module''),
        app\<lparr>calls := calls app @ [CreateFailed (ShaderModule, 0)]\<rparr>)
     else
     (case fileContents env FRAGMENT_SHADER_PATH of
        None \<Rightarrow> (Inl (runtime_error ''failed to open file''),
                 app\<lparr>calls := calls app @ [Create (ShaderModule, 0)]\<rparr>)
      | Some fragmentCode \<Rightarrow>
     if \<not> vkCreateShaderModule_ok env fragmentCode then
       (Inl (runtime_error ''failed to create shader module''),
        app\<lparr>calls := calls app @ [Create (ShaderModule, 0), CreateFailed (ShaderModule, 1)]\<rparr>)
     else if \<not> vkCreatePipelineLayout_ok env then
       (Inl (runtime_error ''failed to create pipeline layout''),
        app\<lparr>calls := calls app @ [Create (ShaderModule, 0), Create (ShaderModule, 1),
                                   CreateFailed (PipelineLayout, 0)]\<rparr>)
     else if \<not> vkCreateGraphicsPipelines_ok env then
       (Inl (runtime_error ''failed to create graphics pipeline''),
        app\<lparr>calls := calls app @ [Create (ShaderModule, 0), Create (ShaderModule, 1),
                                   Create (PipelineLayout, 0), CreateFailed (GraphicsPipeline, 0),
                                   Destroy (ShaderModule, 0), Destroy (ShaderModule, 1)]\<rparr>)
     else
       (Inr (),
        app\<lparr>calls := calls app @ [Create (ShaderModule, 0), Create (ShaderModule, 1),
                                   Create (PipelineLayout, 0), Create (GraphicsPipeline, 0),
                                   Destroy (ShaderModule, 0), Destroy (ShaderModule, 1)]\<rparr>)))"
  by (simp add: createGraphicsPipeline_def andThen_cases orThrow_def readFile_def throw_def
        succeed_def createShaderModule_eq createPipelineLayout_def driverCreate_eq logCall_def
      split: option.splits)

text \<open>
  When both shader files are read, both modules are created and the pipeline layout is
  created, the pipeline-creation call is reached, and it is followed by the destruction
  of both modules and by nothing else, whether it succeeded (the function returns) or
  failed (the function destroys the modules and then raises).
\<close>

lemma createGraphicsPipeline_past_pipeline_layout:
  assumes "fileContents env VERTEX_SHADER_PATH = Some vertexCode"
    and "vkCreateShaderModule_ok env vertexCode"
    and "fileContents env FRAGMENT_SHADER_PATH = Some fragmentCode"
    and "vkCreateShaderModule_ok env fragmentCode"
    and "vkCreatePipelineLayout_ok env"
  shows "createGraphicsPipeline env app =
           (if vkCreateGraphicsPipelines_ok env then Inr ()
            else Inl (runtime_error ''failed to create graphics pipeline''),
            app\<lparr>calls := calls app @
               [Create (ShaderModule, 0), Create (ShaderModule, 1), Create (PipelineLayout, 0),
                if vkCreateGraphicsPipelines_ok env then Create (GraphicsPipeline, 0)
                else CreateFailed (GraphicsPipeline, 0),
                Destroy (ShaderModule, 0), Destroy (ShaderModule, 1)]\<rparr>)"
  using assms by (simp add: createGraphicsPipeline_eq)

text \<open>
  Claim C9, at an environment in which both shader files are read and both shader modules
  are created but the pipeline layout cannot be created: \<open>createGraphicsPipeline\<close> raises
  "failed to create pipeline layout" from \<open>createPipelineLayout\<close>, before the
  pipeline-creation call, after three calls of the driver and no destruction; both shader
  modules are alive when the function exits.
\<close>

theorem pipeline_layout_failure_leaks_shader_modules:
  "fst (createGraphicsPipeline
          ((sampleEnvironment True)\<lparr>vkCreatePipelineLayout_ok := False\<rparr>) newApp)
     = Inl (runtime_error ''failed to create pipeline layout'')
   \<and> callsSince newApp
        (snd (createGraphicsPipeline
               ((sampleEnvironment True)\<lparr>vkCreatePipelineLayout_ok := False\<rparr>) newApp))
     = [Create (ShaderModule, 0), Create (ShaderModule, 1), CreateFailed (PipelineLayout, 0)]
   \<and> live (callsSince newApp
        (snd (createGraphicsPipeline
               ((sampleEnvironment True)\<lparr>vkCreatePipelineLayout_ok := False\<rparr>) newApp)))
     = [(ShaderModule, 0), (ShaderModule, 1)]"
  by code_simp

text \<open>
  The same happens to the vertex shader module when the fragment shader file cannot be
  read or the fragment shader module cannot be created.
\<close>

lemma fragment_failure_leaks_vertex_shader_module:
  "fst (createGraphicsPipeline
          ((sampleEnvironment True)\<lparr>vkCreateShaderModule_ok := (\<lambda>code. code = ''vertex bytecode'')\<rparr>)
          newApp)
     = Inl (runtime_error ''failed to create shader module'')
   \<and> live (callsSince newApp
        (snd (createGraphicsPipeline
               ((sampleEnvironment True)\<lparr>vkCreateShaderModule_ok := (\<lambda>code. code = ''vertex bytecode'')\<rparr>)
               newApp)))
     = [(ShaderModule, 0)]"
  by code_simp

section \<open>Teardown against construction\<close>

lemma created_append [simp]: "created (xs @ ys) = created xs @ created ys"
  by (induction xs rule: created.induct) simp_all

lemma destroyed_append [simp]: "destroyed (xs @ ys) = destroyed xs @ destroyed ys"
  by (induction xs rule: destroyed.induct) simp_all

lemma created_map_Create [simp]: "created (map (\<lambda>i. Create (k, i)) ns) = map (Pair k) ns"
  by (induction ns) simp_all

lemma destroyed_map_Create [simp]: "destroyed (map (\<lambda>i. Create (k, i)) ns) = []"
  by (induction ns) simp_all

lemma created_map_Destroy [simp]: "created (map (\<lambda>i. Destroy (k, i)) ns) = []"
  by (induction ns) simp_all

lemma destroyed_map_Destroy [simp]: "destroyed (map (\<lambda>i. Destroy (k, i)) ns) = map (Pair k) ns"
  by (induction ns) simp_all

lemma imageViews_loop_ok:
  "createSwapChainImageViews_loop env imgs app = (Inr u, app') \<Longrightarrow>
     calls app' = calls app @ map (\<lambda>i. Create (ImageView, i)) imgs
     \<and> swapChainImageViews app' = swapChainImageViews app @ imgs
     \<and> framebuffers app' = framebuffers app"
proof (induction imgs arbitrary: app)
  case Nil
  then show ?case by (simp add: succeed_def)
next
  case (Cons img imgs)
  from Cons.prems obtain mid where
    ok: "vkCreateImageView_ok env img"
    and rest: "createSwapChainImageViews_loop env imgs mid = (Inr u, app')"
    and mid: "mid = app\<lparr>calls := calls app @ [Create (ImageView, img)],
                        swapChainImageViews := swapChainImageViews app @ [img]\<rparr>"
    by (auto simp: andThen_Inr createSwapChainImageView_def driverCreate_eq succeed_def
             split: if_splits)
  from Cons.IH [OF rest] mid show ?case by simp
qed

lemma framebuffers_loop_ok:
  "createFramebuffers_loop env ns app = (Inr u, app') \<Longrightarrow>
     calls app' = calls app @ map (\<lambda>i. Create (Framebuffer, i)) ns
     \<and> swapChainImageViews app' = swapChainImageViews app
     \<and> framebuffers app' = fold (\<lambda>i fbs. fbs[i := Some i]) ns (framebuffers app)"
proof (induction ns arbitrary: app)
  case Nil
  then show ?case by (simp add: succeed_def)
next
  case (Cons i ns)
  from Cons.prems obtain mid where
    rest: "createFramebuffers_loop env ns mid = (Inr u, app')"
    and mid: "mid = app\<lparr>calls := calls app @ [Create (Framebuffer, i)],
                        framebuffers := (framebuffers app)[i := Some i]\<rparr>"
    by (auto simp: andThen_Inr driverCreate_eq split: if_splits)
  from Cons.IH [OF rest] mid show ?case by simp
qed

lemma fill_framebuffers:
  "k \<le> n \<Longrightarrow>
   fold (\<lambda>i fbs. fbs[i := Some i]) [0 ..< k] (replicate n None)
     = map Some [0 ..< k] @ replicate (n - k) None"
proof (induction k)
  case 0
  then show ?case by simp
next
  case (Suc k)
  then have "k < n" by simp
  then obtain m where m: "n - k = Suc m" by (cases "n - k") auto
  then have m': "n - Suc k = m" by simp
  from Suc show ?case
    by (simp add: m m' list_update_append)
qed

lemma createFramebuffers_ok:
  assumes "createFramebuffers env app = (Inr u, app')" and "framebuffers app = []"
  shows "calls app' = calls app
           @ map (\<lambda>i. Create (Framebuffer, i)) [0 ..< length (swapChainImageViews app)]
         \<and> swapChainImageViews app' = swapChainImageViews app
         \<and> framebuffers app' = map Some [0 ..< length (swapChainImageViews app)]"
proof -
  let ?n = "length (swapChainImageViews app)"
  let ?mid = "app\<lparr>framebuffers := replicate ?n None\<rparr>"
  from assms have "createFramebuffers_loop env [0 ..< ?n] ?mid = (Inr u, app')"
    by (auto simp: createFramebuffers_def andThen_Inr)
  from framebuffers_loop_ok [OF this] show ?thesis
    by (simp add: fill_framebuffers)
qed

lemma loadGlobalFunctions_ok: "loadGlobalFunctions env app = (Inr u, app') \<Longrightarrow> app' = app"
  by (auto simp: loadGlobalFunctions_def throw_def succeed_def split: if_splits)

lemma createInstance_ok:
  "createInstance env app = (Inr u, app') \<Longrightarrow> app' = app\<lparr>calls := calls app @ [Create (Instance, 0)]\<rparr>"
  by (auto simp: createInstance_def Let_def throw_def driverCreate_eq split: if_splits)

lemma loadInstanceFunctions_ok: "loadInstanceFunctions env app = (Inr u, app') \<Longrightarrow> app' = app"
  by (simp add: loadInstanceFunctions_def succeed_def)

lemma setupDebugMessenger_ok:
  "setupDebugMessenger env app = (Inr u, app') \<Longrightarrow>
     app' = app\<lparr>calls := calls app
              @ (if enableValidationLayers env then [Create (DebugMessenger, 0)] else [])\<rparr>"
  by (auto simp: setupDebugMessenger_def succeed_def driverCreate_eq split: if_splits)

lemma createSurface_ok:
  "createSurface env app = (Inr u, app') \<Longrightarrow> app' = app\<lparr>calls := calls app @ [Create (Surface, 0)]\<rparr>"
  by (auto simp: createSurface_def driverCreate_eq split: if_splits)

lemma pickPhysicalDevice_ok:
  "pickPhysicalDevice env app = (Inr u, app') \<Longrightarrow> \<exists>d. app' = app\<lparr>physicalDevice := Some d\<rparr>"
  by (auto simp: pickPhysicalDevice_def andThen_Inr orThrow_def throw_def succeed_def
           split: sum.splits)

lemma cacheQueueFamilyIndices_ok:
  "cacheQueueFamilyIndices env app = (Inr u, app') \<Longrightarrow> \<exists>q. app' = app\<lparr>queueFamilyIndices := q\<rparr>"
  by (auto simp: cacheQueueFamilyIndices_def andThen_Inr selectedDevice_def split: option.splits)

lemma createLogicalDevice_ok:
  "createLogicalDevice env app = (Inr u, app') \<Longrightarrow> app' = app\<lparr>calls := calls app @ [Create (Device, 0)]\<rparr>"
  by (auto simp: createLogicalDevice_def andThen_Inr orThrow_def throw_def succeed_def
                 driverCreate_eq split: sum.splits if_splits)

lemma retrieveQueueHandles_ok: "retrieveQueueHandles env app = (Inr u, app') \<Longrightarrow> app' = app"
  by (auto simp: retrieveQueueHandles_def andThen_Inr orThrow_def throw_def succeed_def
           split: sum.splits)

lemma loadDeviceFunctions_ok: "loadDeviceFunctions env app = (Inr u, app') \<Longrightarrow> app' = app"
  by (simp add: loadDeviceFunctions_def succeed_def)

lemma createSwapChain_ok:
  "createSwapChain env app = (Inr u, app') \<Longrightarrow>
     \<exists>f x. app' = app\<lparr>calls := calls app @ [Create (SwapChain, 0)],
                      swapChainImageFormat := f, swapChainExtent := x\<rparr>"
  by (auto simp: createSwapChain_def andThen_Inr selectedDevice_def orThrow_def throw_def
                 succeed_def driverCreate_eq split: option.splits sum.splits if_splits)

lemma retrieveSwapChainImageHandles_ok:
  "retrieveSwapChainImageHandles env app = (Inr u, app') \<Longrightarrow>
     app' = app\<lparr>swapChainImages := [0 ..< swapchainImageCount env]\<rparr>"
  by (auto simp: retrieveSwapChainImageHandles_def)

lemma createSwapChainImageViews_ok:
  "createSwapChainImageViews env app = (Inr u, app') \<Longrightarrow>
     calls app' = calls app @ map (\<lambda>i. Create (ImageView, i)) (swapChainImages app)
     \<and> swapChainImageViews app' = swapChainImageViews app @ swapChainImages app
     \<and> framebuffers app' = framebuffers app"
  unfolding createSwapChainImageViews_def by (rule imageViews_loop_ok)

lemma createRenderPass_ok:
  "createRenderPass env app = (Inr u, app') \<Longrightarrow> app' = app\<lparr>calls := calls app @ [Create (RenderPass, 0)]\<rparr>"
  by (auto simp: createRenderPass_def driverCreate_eq split: if_splits)

lemma createGraphicsPipeline_ok:
  "createGraphicsPipeline env app = (Inr u, app') \<Longrightarrow>
     app' = app\<lparr>calls := calls app @ [Create (ShaderModule, 0), Create (ShaderModule, 1),
                                      Create (PipelineLayout, 0), Create (GraphicsPipeline, 0),
                                      Destroy (ShaderModule, 0), Destroy (ShaderModule, 1)]\<rparr>"
  by (auto simp: createGraphicsPipeline_eq split: option.splits if_splits)

lemma initVulkan_ok:
  assumes run: "initVulkan env app = (Inr u, app')"
    and fresh: "swapChainImageViews app = []" "framebuffers app = []"
  shows "calls app' = calls app
           @ [Create (Instance, 0)]
           @ (if enableValidationLayers env then [Create (DebugMessenger, 0)] else [])
           @ [Create (Surface, 0), Create (Device, 0), Create (SwapChain, 0)]
           @ map (\<lambda>i. Create (ImageView, i)) [0 ..< swapchainImageCount env]
           @ [Create (RenderPass, 0), Create (ShaderModule, 0), Create (ShaderModule, 1),
              Create (PipelineLayout, 0), Create (GraphicsPipeline, 0),
              Destroy (ShaderModule, 0), Destroy (ShaderModule, 1)]
           @ map (\<lambda>i. Create (Framebuffer, i)) [0 ..< swapchainImageCount env]"
    and "swapChainImageViews app' = [0 ..< swapchainImageCount env]"
    and "framebuffers app' = map Some [0 ..< swapchainImageCount env]"
proof -
  from run obtain a1 a2 a3 a4 a5 a6 a7 a8 a9 a10 a11 a12 a13 a14 a15 where
    s1: "loadGlobalFunctions env app = (Inr (), a1)" and
    s2: "createInstance env a1 = (Inr (), a2)" and
    s3: "loadInstanceFunctions env a2 = (Inr (), a3)" and
    s4: "setupDebugMessenger env a3 = (Inr (), a4)" and
    s5: "createSurface env a4 = (Inr (), a5)" and
    s6: "pickPhysicalDevice env a5 = (Inr (), a6)" and
    s7: "cacheQueueFamilyIndices env a6 = (Inr (), a7)" and
    s8: "createLogicalDevice env a7 = (Inr (), a8)" and
    s9: "retrieveQueueHandles env a8 = (Inr (), a9)" and
    s10: "loadDeviceFunctions env a9 = (Inr (), a10)" and
    s11: "createSwapChain env a10 = (Inr (), a11)" and
    s12: "retrieveSwapChainImageHandles env a11 = (Inr (), a12)" and
    s13: "createSwapChainImageViews env a12 = (Inr (), a13)" and
    s14: "createRenderPass env a13 = (Inr (), a14)" and
    s15: "createGraphicsPipeline env a14 = (Inr (), a15)" and
    s16: "createFramebuffers env a15 = (Inr u, app')"
    unfolding initVulkan_def andThen_Inr by auto
  note e1 = loadGlobalFunctions_ok [OF s1]
    and e2 = createInstance_ok [OF s2]
    and e3 = loadInstanceFunctions_ok [OF s3]
    and e4 = setupDebugMessenger_ok [OF s4]
    and e5 = createSurface_ok [OF s5]
    and e8 = createLogicalDevice_ok [OF s8]
    and e9 = retrieveQueueHandles_ok [OF s9]
    and e10 = loadDeviceFunctions_ok [OF s10]
    and e12 = retrieveSwapChainImageHandles_ok [OF s12]
    and e14 = createRenderPass_ok [OF s14]
    and e15 = createGraphicsPipeline_ok [OF s15]
  from pickPhysicalDevice_ok [OF s6] obtain d where e6: "a6 = a5\<lparr>physicalDevice := Some d\<rparr>" ..
  from cacheQueueFamilyIndices_ok [OF s7] obtain q where e7: "a7 = a6\<lparr>queueFamilyIndices := q\<rparr>" ..
  from createSwapChain_ok [OF s11] obtain f x where
    e11: "a11 = a10\<lparr>calls := calls a10 @ [Create (SwapChain, 0)],
                      swapChainImageFormat := f, swapChainExtent := x\<rparr>" by blast
  have a12: "calls a12 = calls app
           @ [Create (Instance, 0)]
           @ (if enableValidationLayers env then [Create (DebugMessenger, 0)] else [])
           @ [Create (Surface, 0), Create (Device, 0), Create (SwapChain, 0)]"
      "swapChainImages a12 = [0 ..< swapchainImageCount env]"
      "swapChainImageViews a12 = []" "framebuffers a12 = []"
    using fresh by (simp_all add: e1 e2 e3 e4 e5 e6 e7 e8 e9 e10 e11 e12)
  from createSwapChainImageViews_ok [OF s13] a12
  have a13: "calls a13 = calls a12 @ map (\<lambda>i. Create (ImageView, i)) [0 ..< swapchainImageCount env]"
      "swapChainImageViews a13 = [0 ..< swapchainImageCount env]" "framebuffers a13 = []"
    by simp_all
  from a13 have a15: "calls a15 = calls a13
           @ [Create (RenderPass, 0), Create (ShaderModule, 0), Create (ShaderModule, 1),
              Create (PipelineLayout, 0), Create (GraphicsPipeline, 0),
              Destroy (ShaderModule, 0), Destroy (ShaderModule, 1)]"
      "swapChainImageViews a15 = [0 ..< swapchainImageCount env]" "framebuffers a15 = []"
    by (simp_all add: e14 e15)
  from createFramebuffers_ok [OF s16 a15(3)] a15
  have last: "calls app' = calls a15 @ map (\<lambda>i. Create (Framebuffer, i)) [0 ..< swapchainImageCount env]"
      "swapChainImageViews app' = [0 ..< swapchainImageCount env]"
      "framebuffers app' = map Some [0 ..< swapchainImageCount env]"
    by simp_all
  from last a15 a13 a12 show "calls app' = calls app
           @ [Create (Instance, 0)]
           @ (if enableValidationLayers env then [Create (DebugMessenger, 0)] else [])
           @ [Create (Surface, 0), Create (Device, 0), Create (SwapChain, 0)]
           @ map (\<lambda>i. Create (ImageView, i)) [0 ..< swapchainImageCount env]
           @ [Create (RenderPass, 0), Create (ShaderModule, 0), Create (ShaderModule, 1),
              Create (PipelineLayout, 0), Create (GraphicsPipeline, 0),
              Destroy (ShaderModule, 0), Destroy (ShaderModule, 1)]
           @ map (\<lambda>i. Create (Framebuffer, i)) [0 ..< swapchainImageCount env]"
    by simp
  from last show "swapChainImageViews app' = [0 ..< swapchainImageCount env]"
    and "framebuffers app' = map Some [0 ..< swapchainImageCount env]" by simp_all
qed

lemma destroy_created_framebuffers:
  "concat (map (destroyFramebuffer \<circ> Some) ns) = map (\<lambda>i. Destroy (Framebuffer, i)) ns"
  by (induction ns) (simp_all add: destroyFramebuffer_def)

lemma initWindow_eq:
  "initWindow env app =
     (Inr (), app\<lparr>calls := calls app
        @ [if glfwInit_ok env then Create (GlfwLibrary, 0) else CreateFailed (GlfwLibrary, 0),
           if glfwCreateWindow_ok env then Create (Window, 0) else CreateFailed (Window, 0)]\<rparr>)"
  by (simp add: initWindow_def andThen_def logCall_def)

lemma bootstrap_ok:
  assumes run: "bootstrap env newApp = (Inr u, app)"
    and glfw: "glfwInit_ok env" "glfwCreateWindow_ok env"
  shows "calls app =
           [Create (GlfwLibrary, 0), Create (Window, 0), Create (Instance, 0)]
           @ (if enableValidationLayers env then [Create (DebugMessenger, 0)] else [])
           @ [Create (Surface, 0), Create (Device, 0), Create (SwapChain, 0)]
           @ map (\<lambda>i. Create (ImageView, i)) [0 ..< swapchainImageCount env]
           @ [Create (RenderPass, 0), Create (ShaderModule, 0), Create (ShaderModule, 1),
              Create (PipelineLayout, 0), Create (GraphicsPipeline, 0),
              Destroy (ShaderModule, 0), Destroy (ShaderModule, 1)]
           @ map (\<lambda>i. Create (Framebuffer, i)) [0 ..< swapchainImageCount env]"
    and "swapChainImageViews app = [0 ..< swapchainImageCount env]"
    and "framebuffers app = map Some [0 ..< swapchainImageCount env]"
proof -
  let ?w = "newApp\<lparr>calls := [Create (GlfwLibrary, 0), Create (Window, 0)]\<rparr>"
  from run glfw have iv: "initVulkan env ?w = (Inr u, app)"
    by (simp add: bootstrap_def andThen_cases initWindow_eq newApp_def)
  have fresh: "swapChainImageViews ?w = []" "framebuffers ?w = []"
    by (simp_all add: newApp_def)
  from initVulkan_ok [OF iv fresh]
  show "calls app =
           [Create (GlfwLibrary, 0), Create (Window, 0), Create (Instance, 0)]
           @ (if enableValidationLayers env then [Create (DebugMessenger, 0)] else [])
           @ [Create (Surface, 0), Create (Device, 0), Create (SwapChain, 0)]
           @ map (\<lambda>i. Create (ImageView, i)) [0 ..< swapchainImageCount env]
           @ [Create (RenderPass, 0), Create (ShaderModule, 0), Create (ShaderModule, 1),
              Create (PipelineLayout, 0), Create (GraphicsPipeline, 0),
              Destroy (ShaderModule, 0), Destroy (ShaderModule, 1)]
           @ map (\<lambda>i. Create (Framebuffer, i)) [0 ..< swapchainImageCount env]"
    and "swapChainImageViews app = [0 ..< swapchainImageCount env]"
    and "framebuffers app = map Some [0 ..< swapchainImageCount env]"
    by simp_all
qed

lemma before_append:
  "before a b (xs @ ys) \<longleftrightarrow> before a b xs \<or> before a b ys \<or> (a \<in> set xs \<and> b \<in> set ys)"
  by (induction xs) auto

lemma before_indexed:
  "before a b (map (Pair k) [0 ..< n]) \<longleftrightarrow>
     fst a = k \<and> fst b = k \<and> snd a < snd b \<and> snd b < n"
proof (induction n)
  case 0
  then show ?case by simp
next
  case (Suc n)
  have "before a b (map (Pair k) [0 ..< Suc n]) \<longleftrightarrow>
          before a b (map (Pair k) [0 ..< n]) \<or> (a \<in> set (map (Pair k) [0 ..< n]) \<and> b = (k, n))"
    by (auto simp: before_append)
  with Suc show ?case by (cases a; cases b) auto
qed

lemma constructed_ok:
  assumes "bootstrap env newApp = (Inr u, app)" "glfwInit_ok env" "glfwCreateWindow_ok env"
  shows "constructed app =
           [(GlfwLibrary, 0), (Window, 0), (Instance, 0)]
           @ (if enableValidationLayers env then [(DebugMessenger, 0)] else [])
           @ [(Surface, 0), (Device, 0), (SwapChain, 0)]
           @ map (Pair ImageView) [0 ..< swapchainImageCount env]
           @ [(RenderPass, 0), (PipelineLayout, 0), (GraphicsPipeline, 0)]
           @ map (Pair Framebuffer) [0 ..< swapchainImageCount env]"
proof -
  have keep: "filter (\<lambda>h. h \<noteq> (ShaderModule, 0) \<and> h \<noteq> (ShaderModule, Suc 0)) (map (Pair k) ns)
                = map (Pair k) ns" if "k \<noteq> ShaderModule" for k and ns :: "nat list"
    using that by (induction ns) simp_all
  show ?thesis
    by (simp add: constructed_def live_def bootstrap_ok(1) [OF assms] keep)
qed

lemma tornDown_ok:
  assumes "bootstrap env newApp = (Inr u, app)" "glfwInit_ok env" "glfwCreateWindow_ok env"
  shows "tornDown env app =
           map (Pair Framebuffer) [0 ..< swapchainImageCount env]
           @ [(GraphicsPipeline, 0), (PipelineLayout, 0), (RenderPass, 0)]
           @ map (Pair ImageView) [0 ..< swapchainImageCount env]
           @ [(SwapChain, 0), (Device, 0)]
           @ (if enableValidationLayers env then [(DebugMessenger, 0)] else [])
           @ [(Surface, 0), (Instance, 0), (Window, 0), (GlfwLibrary, 0)]"
proof -
  have "callsSince app (cleanup env app) =
          map (\<lambda>i. Destroy (Framebuffer, i)) [0 ..< swapchainImageCount env]
          @ [Destroy (GraphicsPipeline, 0), Destroy (PipelineLayout, 0), Destroy (RenderPass, 0)]
          @ map (\<lambda>i. Destroy (ImageView, i)) [0 ..< swapchainImageCount env]
          @ [Destroy (SwapChain, 0), Destroy (Device, 0)]
          @ (if enableValidationLayers env then [Destroy (DebugMessenger, 0)] else [])
          @ [Destroy (Surface, 0), Destroy (Instance, 0), Destroy (Window, 0),
             Destroy (GlfwLibrary, 0)]"
    by (rule callsSince_append)
       (simp add: cleanup_def bootstrap_ok(2,3) [OF assms] destroy_created_framebuffers)
  then show ?thesis
    by (simp add: tornDown_def)
qed

lemma pair_in_indexed: "(k, i) \<in> Pair k' ` S \<longleftrightarrow> k = k' \<and> i \<in> S"
  by auto

lemma pairwise_order:
  assumes c: "c =
           [(GlfwLibrary, 0), (Window, 0), (Instance, 0)]
           @ (if v then [(DebugMessenger, 0)] else [])
           @ [(Surface, 0), (Device, 0), (SwapChain, 0)]
           @ map (Pair ImageView) [0 ..< n]
           @ [(RenderPass, 0), (PipelineLayout, 0), (GraphicsPipeline, 0)]
           @ map (Pair Framebuffer) [0 ..< n]"
    and t: "t =
           map (Pair Framebuffer) [0 ..< n]
           @ [(GraphicsPipeline, 0), (PipelineLayout, 0), (RenderPass, 0)]
           @ map (Pair ImageView) [0 ..< n]
           @ [(SwapChain, 0), (Device, 0)]
           @ (if v then [(DebugMessenger, 0)] else [])
           @ [(Surface, 0), (Instance, 0), (Window, 0), (GlfwLibrary, 0)]"
    and ab: "before a b c"
  shows "if fst a = fst b \<or> (fst a = DebugMessenger \<and> fst b = Surface)
         then before a b t else before b a t"
proof (cases a; cases b)
  fix ka ia kb ib
  assume a: "a = (ka, ia)" and b: "b = (kb, ib)"
  show ?thesis
    using ab unfolding c t a b
    by (cases v; cases ka; cases kb; simp add: before_append before_indexed pair_in_indexed)
qed

text \<open>
  Claim C1, as stated, at two bootstraps that succeed with two swapchain images. In the
  build with validation layers the debug messenger is created before the surface and is
  destroyed before it too. In both builds the image views are destroyed in the order of
  their creation, and so are the framebuffers. In neither build is the teardown the
  reverse of the construction.
\<close>

theorem teardown_is_not_reverse_of_construction:
  "fst (bootstrap (sampleEnvironment True) newApp) = Inr ()
   \<and> constructed (snd (bootstrap (sampleEnvironment True) newApp))
       = [(GlfwLibrary, 0), (Window, 0), (Instance, 0), (DebugMessenger, 0), (Surface, 0),
          (Device, 0), (SwapChain, 0), (ImageView, 0), (ImageView, 1), (RenderPass, 0),
          (PipelineLayout, 0), (GraphicsPipeline, 0), (Framebuffer, 0), (Framebuffer, 1)]
   \<and> tornDown (sampleEnvironment True) (snd (bootstrap (sampleEnvironment True) newApp))
       = [(Framebuffer, 0), (Framebuffer, 1), (GraphicsPipeline, 0), (PipelineLayout, 0),
          (RenderPass, 0), (ImageView, 0), (ImageView, 1), (SwapChain, 0), (Device, 0),
          (DebugMessenger, 0), (Surface, 0), (Instance, 0), (Window, 0), (GlfwLibrary, 0)]
   \<and> tornDown (sampleEnvironment True) (snd (bootstrap (sampleEnvironment True) newApp))
       \<noteq> rev (constructed (snd (bootstrap (sampleEnvironment True) newApp)))
   \<and> before (DebugMessenger, 0) (Surface, 0)
        (constructed (snd (bootstrap (sampleEnvironment True) newApp)))
   \<and> before (DebugMessenger, 0) (Surface, 0)
        (tornDown (sampleEnvironment True) (snd (bootstrap (sampleEnvironment True) newApp)))
   \<and> fst (bootstrap (sampleEnvironment False) newApp) = Inr ()
   \<and> before (ImageView, 0) (ImageView, 1)
        (constructed (snd (bootstrap (sampleEnvironment False) newApp)))
   \<and> before (ImageView, 0) (ImageView, 1)
        (tornDown (sampleEnvironment False) (snd (bootstrap (sampleEnvironment False) newApp)))
   \<and> before (Framebuffer, 0) (Framebuffer, 1)
        (constructed (snd (bootstrap (sampleEnvironment False) newApp)))
   \<and> before (Framebuffer, 0) (Framebuffer, 1)
        (tornDown (sampleEnvironment False) (snd (bootstrap (sampleEnvironment False) newApp)))
   \<and> tornDown (sampleEnvironment False) (snd (bootstrap (sampleEnvironment False) newApp))
       \<noteq> rev (constructed (snd (bootstrap (sampleEnvironment False) newApp)))"
  by code_simp

text \<open>
  Claim C1, amended, on handles. After a successful bootstrap of a fresh application, with
  the window created and \<open>n\<close> swapchain images, the objects alive are the library, the
  window, the instance, the debug messenger (in a build with validation layers), the
  surface, the device, the swapchain, the image views 0 to \<open>n - 1\<close>, the render pass, the
  pipeline layout, the pipeline and the framebuffers 0 to \<open>n - 1\<close>, created in this
  order. \<open>cleanup\<close> destroys exactly these objects, each once: the framebuffers 0 to
  \<open>n - 1\<close>, the pipeline, the pipeline layout, the render pass, the image views 0 to
  \<open>n - 1\<close>, the swapchain, the device, the debug messenger, the surface, the instance,
  the window and the library, in this order. So of two objects the one created first is
  destroyed last, except that two image views, two framebuffers, and the debug messenger
  and the surface are destroyed in the order of their creation. The teardown is the exact
  reverse of the construction in a build without validation layers with at most one
  swapchain image.
\<close>

theorem teardown_against_construction_on_handles:
  assumes "bootstrap env newApp = (Inr (), app)" "glfwInit_ok env" "glfwCreateWindow_ok env"
  shows "constructed app =
           [(GlfwLibrary, 0), (Window, 0), (Instance, 0)]
           @ (if enableValidationLayers env then [(DebugMessenger, 0)] else [])
           @ [(Surface, 0), (Device, 0), (SwapChain, 0)]
           @ map (Pair ImageView) [0 ..< swapchainImageCount env]
           @ [(RenderPass, 0), (PipelineLayout, 0), (GraphicsPipeline, 0)]
           @ map (Pair Framebuffer) [0 ..< swapchainImageCount env]
         \<and> tornDown env app =
           map (Pair Framebuffer) [0 ..< swapchainImageCount env]
           @ [(GraphicsPipeline, 0), (PipelineLayout, 0), (RenderPass, 0)]
           @ map (Pair ImageView) [0 ..< swapchainImageCount env]
           @ [(SwapChain, 0), (Device, 0)]
           @ (if enableValidationLayers env then [(DebugMessenger, 0)] else [])
           @ [(Surface, 0), (Instance, 0), (Window, 0), (GlfwLibrary, 0)]
         \<and> distinct (tornDown env app)
         \<and> set (tornDown env app) = set (constructed app)
         \<and> (\<forall>a b. before a b (constructed app) \<longrightarrow>
               (if fst a = fst b \<or> (fst a = DebugMessenger \<and> fst b = Surface)
                then before a b (tornDown env app)
                else before b a (tornDown env app)))
         \<and> (\<not> enableValidationLayers env \<and> swapchainImageCount env \<le> 1 \<longrightarrow>
               tornDown env app = rev (constructed app))"
proof -
  note c = constructed_ok [OF assms] and t = tornDown_ok [OF assms]
  have d: "distinct (tornDown env app)"
    by (auto simp: t distinct_map inj_on_def)
  have s: "set (tornDown env app) = set (constructed app)"
    unfolding c t by (cases "enableValidationLayers env") auto
  have p: "\<forall>a b. before a b (constructed app) \<longrightarrow>
               (if fst a = fst b \<or> (fst a = DebugMessenger \<and> fst b = Surface)
                then before a b (tornDown env app)
                else before b a (tornDown env app))"
    using pairwise_order [OF c t] by blast
  have r: "\<not> enableValidationLayers env \<and> swapchainImageCount env \<le> 1 \<longrightarrow>
               tornDown env app = rev (constructed app)"
  proof
    assume a: "\<not> enableValidationLayers env \<and> swapchainImageCount env \<le> 1"
    then have "swapchainImageCount env = 0 \<or> swapchainImageCount env = 1" by auto
    with a show "tornDown env app = rev (constructed app)"
      unfolding c t by auto
  qed
  from c t d s p r show ?thesis by (intro conjI)
qed

theorem teardown_against_construction_on_handles_witness:
  "bootstrap (sampleEnvironment False) newApp
     = (Inr (), snd (bootstrap (sampleEnvironment False) newApp))
   \<and> glfwInit_ok (sampleEnvironment False) \<and> glfwCreateWindow_ok (sampleEnvironment False)
   \<and> tornDown (sampleEnvironment False) (snd (bootstrap (sampleEnvironment False) newApp))
       = [(Framebuffer, 0), (Framebuffer, 1), (GraphicsPipeline, 0), (PipelineLayout, 0),
          (RenderPass, 0), (ImageView, 0), (ImageView, 1), (SwapChain, 0), (Device, 0),
          (Surface, 0), (Instance, 0), (Window, 0), (GlfwLibrary, 0)]
   \<and> bootstrap (sampleEnvironment True) newApp
     = (Inr (), snd (bootstrap (sampleEnvironment True) newApp))
   \<and> glfwInit_ok (sampleEnvironment True) \<and> glfwCreateWindow_ok (sampleEnvironment True)
   \<and> tornDown (sampleEnvironment True) (snd (bootstrap (sampleEnvironment True) newApp))
       = [(Framebuffer, 0), (Framebuffer, 1), (GraphicsPipeline, 0), (PipelineLayout, 0),
          (RenderPass, 0), (ImageView, 0), (ImageView, 1), (SwapChain, 0), (Device, 0),
          (DebugMessenger, 0), (Surface, 0), (Instance, 0), (Window, 0), (GlfwLibrary, 0)]"
proof -
  have off: "fst (bootstrap (sampleEnvironment False) newApp) = Inr ()"
    and on: "fst (bootstrap (sampleEnvironment True) newApp) = Inr ()"
    by code_simp+
  have runs: "bootstrap (sampleEnvironment False) newApp
                = (Inr (), snd (bootstrap (sampleEnvironment False) newApp))"
      "bootstrap (sampleEnvironment True) newApp
                = (Inr (), snd (bootstrap (sampleEnvironment True) newApp))"
    using off on by (simp_all add: prod_eq_iff)
  have env: "glfwInit_ok (sampleEnvironment b)" "glfwCreateWindow_ok (sampleEnvironment b)"
      "enableValidationLayers (sampleEnvironment b) = b"
      "swapchainImageCount (sampleEnvironment b) = 2" for b
    by (simp_all add: sampleEnvironment_def)
  have two: "[0 ..< 2] = [0, 1 :: nat]" by (simp add: upt_rec)
  from teardown_against_construction_on_handles [OF runs(1) env(1,2)]
       teardown_against_construction_on_handles [OF runs(2) env(1,2)]
       runs env
  show ?thesis by (simp add: two)
qed

end
